theory Spec2Isabelle
  imports Complex_Main "HOL-Library.Log_Nat"
begin

section \<open>Data model\<close>

text \<open>
  The four tables of the CRM as the route handlers read and write them.  Row ids are the
  strings the ORM generates; a handler that creates a row receives the new id as an
  argument.  Monetary columns hold decimal values, which are exact rationals; the
  handlers read them with \<^verbatim>\<open>parseFloat\<close> and compute in double-precision numbers
  (section \<open>JavaScript numbers\<close>).  Dates are the strings of the request body.
  Timestamps and the free-text columns that no modelled handler reads (course description
  and duration, student address and remarks) are left out of the rows.
\<close>

datatype enrollment_status = ACTIVE | COMPLETED | CANCELLED | SUSPENDED

record student =
  st_id :: string
  st_name :: string
  st_email :: string
  st_phone :: string
  st_nricPassportId :: "string option"
  st_documents :: "string list"

record course =
  c_id :: string
  c_name :: string
  c_price :: rat
  c_isActive :: bool

record enrollment =
  e_id :: string
  e_studentId :: string
  e_courseId :: string
  e_batch :: "string option"
  e_startDate :: string
  e_endDate :: "string option"
  e_status :: enrollment_status

record payment =
  p_id :: string
  p_studentId :: string
  p_enrollmentId :: string
  p_amount :: rat
  p_method :: string
  p_date :: string
  p_notes :: "string option"

record db =
  students :: "student list"
  courses :: "course list"
  enrollments :: "enrollment list"
  payments :: "payment list"

text \<open>An enrollment as \<^verbatim>\<open>include: { course: true, payments: true }\<close> returns it.\<close>

record enrollment_inc =
  inc_enrollment :: enrollment
  inc_course :: course
  inc_payments :: "payment list"

subsection \<open>ORM reads and writes\<close>

text \<open>\<^verbatim>\<open>findUnique({ where: { id } })\<close>: the row with that id, if any.\<close>

definition findUnique :: "('r \<Rightarrow> string) \<Rightarrow> 'r list \<Rightarrow> string \<Rightarrow> 'r option" where
  "findUnique key rows i = find (\<lambda>r. key r = i) rows"

text \<open>\<^verbatim>\<open>update({ where: { id }, data })\<close> on a row known to exist.\<close>

definition update_row :: "('r \<Rightarrow> string) \<Rightarrow> string \<Rightarrow> ('r \<Rightarrow> 'r) \<Rightarrow> 'r list \<Rightarrow> 'r list" where
  "update_row key i f rows = map (\<lambda>r. if key r = i then f r else r) rows"

text \<open>\<^verbatim>\<open>delete({ where: { id } })\<close>.\<close>

definition delete_row :: "('r \<Rightarrow> string) \<Rightarrow> string \<Rightarrow> 'r list \<Rightarrow> 'r list" where
  "delete_row key i rows = filter (\<lambda>r. key r \<noteq> i) rows"

text \<open>\<^verbatim>\<open>payment.findMany({ where: { enrollmentId } })\<close>.\<close>

definition payments_of :: "db \<Rightarrow> string \<Rightarrow> payment list" where
  "payments_of d eid = filter (\<lambda>p. p_enrollmentId p = eid) (payments d)"

text \<open>
  The relation \<^verbatim>\<open>course\<close> of an enrollment is required; a row whose course is
  missing makes the query (or the handler's read of \<^verbatim>\<open>enrollment.course.price\<close>) throw,
  which is the value \<open>None\<close> here.
\<close>

definition include_course_payments :: "db \<Rightarrow> enrollment \<Rightarrow> enrollment_inc option" where
  "include_course_payments d e =
     (case findUnique c_id (courses d) (e_courseId e) of
        None \<Rightarrow> None
      | Some c \<Rightarrow> Some \<lparr>inc_enrollment = e, inc_course = c, inc_payments = payments_of d (e_id e)\<rparr>)"

fun those_opt :: "'a option list \<Rightarrow> 'a list option" where
  "those_opt [] = Some []"
| "those_opt (None # _) = None"
| "those_opt (Some x # xs) = (case those_opt xs of None \<Rightarrow> None | Some ys \<Rightarrow> Some (x # ys))"

section \<open>JavaScript numbers\<close>

text \<open>
  A JavaScript number is an IEEE 754 double: a finite value, which is a rational, an
  infinity, or \<^verbatim>\<open>NaN\<close>.  The two zeros are one value here: the comparisons and
  \<^verbatim>\<open>Math.max\<close> of the handlers do not tell them apart in what they return, and JSON
  writes both as 0.
\<close>

datatype jsnum = Fin rat | PosInf | NegInf | NaN

definition pow2 :: "int \<Rightarrow> rat" where
  "pow2 k = (if 0 \<le> k then 2 ^ nat k else 1 / 2 ^ nat (- k))"

text \<open>
  The binary exponent of a positive rational \<open>a\<close>, the integer \<open>e\<close> with
  \<open>2\<^sup>e \<le> a < 2\<^sup>e\<^sup>+\<^sup>1\<close>: the bit lengths of numerator and denominator give it up to one.
\<close>

definition expo :: "rat \<Rightarrow> int" where
  "expo a =
     (case quotient_of a of
        (p, q) \<Rightarrow> let k = bitlen p - bitlen q in if pow2 k \<le> a then k else k - 1)"

text \<open>Rounding to the nearest integer, a tie going to the even one.\<close>

definition round_half_even :: "rat \<Rightarrow> int" where
  "round_half_even x =
     (let f = \<lfloor>x\<rfloor>; r = x - of_int f
      in if r < 1 / 2 then f
         else if 1 / 2 < r then f + 1
         else if even f then f
         else f + 1)"

text \<open>
  The double nearest to a rational, ties to even: 53 significant bits, the least exponent
  -1022 (below it the spacing stays \<open>2\<^sup>-\<^sup>1\<^sup>0\<^sup>7\<^sup>4\<close>), and an infinity when the rounded
  magnitude reaches \<open>2\<^sup>1\<^sup>0\<^sup>2\<^sup>4\<close>, which it does exactly when the exponent is at least
  1024, or is 1023 and the significand has rounded up to \<open>2\<^sup>5\<^sup>3\<close>.
\<close>

definition round64 :: "rat \<Rightarrow> jsnum" where
  "round64 x =
     (if x = 0 then Fin 0
      else
        let a = \<bar>x\<bar>;
            e = max (expo a) (- 1022);
            ulp = pow2 (e - 52);
            n = round_half_even (a / ulp);
            r = of_int n * ulp
        in if 1024 \<le> e \<or> (e = 1023 \<and> n = 2 ^ 53)
           then (if 0 < x then PosInf else NegInf)
           else Fin (if 0 < x then r else - r))"

text \<open>
  \<^verbatim>\<open>parseFloat\<close> of a decimal column or of a decimal numeral of the request: the
  double nearest to the decimal.
\<close>

definition parseFloat :: "rat \<Rightarrow> jsnum" where
  "parseFloat x = round64 x"

text \<open>\<^verbatim>\<open>a + b\<close> and \<^verbatim>\<open>a - b\<close> on numbers: the exact result, rounded.\<close>

fun js_add :: "jsnum \<Rightarrow> jsnum \<Rightarrow> jsnum" where
  "js_add (Fin a) (Fin b) = round64 (a + b)"
| "js_add NaN _ = NaN"
| "js_add _ NaN = NaN"
| "js_add PosInf NegInf = NaN"
| "js_add NegInf PosInf = NaN"
| "js_add PosInf _ = PosInf"
| "js_add _ PosInf = PosInf"
| "js_add NegInf _ = NegInf"
| "js_add _ NegInf = NegInf"

fun js_neg :: "jsnum \<Rightarrow> jsnum" where
  "js_neg (Fin a) = Fin (- a)"
| "js_neg PosInf = NegInf"
| "js_neg NegInf = PosInf"
| "js_neg NaN = NaN"

definition js_sub :: "jsnum \<Rightarrow> jsnum \<Rightarrow> jsnum" where
  "js_sub a b = js_add a (js_neg b)"

text \<open>\<^verbatim>\<open>a < b\<close> on numbers, false when either is \<^verbatim>\<open>NaN\<close>; the other comparisons.\<close>

fun js_lt :: "jsnum \<Rightarrow> jsnum \<Rightarrow> bool" where
  "js_lt (Fin a) (Fin b) = (a < b)"
| "js_lt NaN _ = False"
| "js_lt _ NaN = False"
| "js_lt PosInf _ = False"
| "js_lt _ NegInf = False"
| "js_lt _ PosInf = True"
| "js_lt NegInf _ = True"

definition js_gt :: "jsnum \<Rightarrow> jsnum \<Rightarrow> bool" where
  "js_gt a b = js_lt b a"

definition js_le :: "jsnum \<Rightarrow> jsnum \<Rightarrow> bool" where
  "js_le a b = (js_lt a b \<or> (a = b \<and> a \<noteq> NaN))"

definition js_ge :: "jsnum \<Rightarrow> jsnum \<Rightarrow> bool" where
  "js_ge a b = js_le b a"

text \<open>\<^verbatim>\<open>Math.max(0, x)\<close>.\<close>

fun Math_max0 :: "jsnum \<Rightarrow> jsnum" where
  "Math_max0 (Fin a) = Fin (max 0 a)"
| "Math_max0 PosInf = PosInf"
| "Math_max0 NegInf = Fin 0"
| "Math_max0 NaN = NaN"

section \<open>Balance reconciliation\<close>

text \<open>
  \<^verbatim>\<open>payments.reduce((sum, payment) => sum + parseFloat(payment.amount), 0)\<close>: a left
  fold from 0, written inline at every call site.
\<close>

definition reduce_amounts :: "payment list \<Rightarrow> jsnum" where
  "reduce_amounts ps =
     foldl (\<lambda>sum payment. js_add sum (parseFloat (p_amount payment))) (Fin 0) ps"

record paymentStatus =
  totalPaid :: jsnum
  outstanding :: jsnum
  isFullyPaid :: bool

text \<open>GET /enrollments, the map that builds \<^verbatim>\<open>enrollmentsWithPaymentStatus\<close>.\<close>

definition enrollmentsWithPaymentStatus ::
  "enrollment_inc list \<Rightarrow> (enrollment_inc \<times> paymentStatus) list" where
  "enrollmentsWithPaymentStatus es =
     map (\<lambda>enrollment.
            let totalPaid = reduce_amounts (inc_payments enrollment);
                coursePrice = parseFloat (c_price (inc_course enrollment));
                outstanding = Math_max0 (js_sub coursePrice totalPaid)
            in (enrollment,
                \<lparr>totalPaid = totalPaid, outstanding = outstanding,
                 isFullyPaid = js_le outstanding (Fin 0)\<rparr>)) es"

text \<open>GET /enrollments/:id, the object \<^verbatim>\<open>enrollmentWithPaymentStatus\<close>.\<close>

definition enrollmentWithPaymentStatus :: "enrollment_inc \<Rightarrow> enrollment_inc \<times> paymentStatus" where
  "enrollmentWithPaymentStatus enrollment =
     (let totalPaid = reduce_amounts (inc_payments enrollment);
          coursePrice = parseFloat (c_price (inc_course enrollment));
          outstanding = Math_max0 (js_sub coursePrice totalPaid)
      in (enrollment,
          \<lparr>totalPaid = totalPaid, outstanding = outstanding,
           isFullyPaid = js_le outstanding (Fin 0)\<rparr>))"

text \<open>GET /payments/student/:studentId/summary, one entry of \<^verbatim>\<open>summary\<close>.\<close>

record summary_item =
  si_enrollmentId :: string
  si_courseName :: string
  si_coursePrice :: jsnum
  si_totalPaid :: jsnum
  si_outstanding :: jsnum
  si_isFullyPaid :: bool
  si_status :: enrollment_status
  si_startDate :: string
  si_endDate :: "string option"

definition summary :: "enrollment_inc list \<Rightarrow> summary_item list" where
  "summary es =
     map (\<lambda>enrollment.
            let totalPaid = reduce_amounts (inc_payments enrollment);
                coursePrice = parseFloat (c_price (inc_course enrollment));
                outstanding = Math_max0 (js_sub coursePrice totalPaid)
            in \<lparr>si_enrollmentId = e_id (inc_enrollment enrollment),
                si_courseName = c_name (inc_course enrollment),
                si_coursePrice = coursePrice,
                si_totalPaid = totalPaid,
                si_outstanding = outstanding,
                si_isFullyPaid = js_le outstanding (Fin 0),
                si_status = e_status (inc_enrollment enrollment),
                si_startDate = e_startDate (inc_enrollment enrollment),
                si_endDate = e_endDate (inc_enrollment enrollment)\<rparr>) es"

text \<open>
  GET /dashboard/overview and GET /dashboard/payments, the reduce that builds
  \<^verbatim>\<open>outstandingAmount\<close> over the ACTIVE enrollments.
\<close>

definition outstandingAmount :: "enrollment_inc list \<Rightarrow> jsnum" where
  "outstandingAmount es =
     foldl (\<lambda>total enrollment.
              let totalPaid = reduce_amounts (inc_payments enrollment);
                  coursePrice = parseFloat (c_price (inc_course enrollment))
              in js_add total (Math_max0 (js_sub coursePrice totalPaid))) (Fin 0) es"



text \<open>
  The same function in the arithmetic of the code: the amounts and the price read as
  doubles, the amounts added from left to right starting at 0, each sum and the
  difference rounded.
\<close>

definition double_balance :: "rat \<Rightarrow> rat list \<Rightarrow> paymentStatus" where
  "double_balance P as =
     \<lparr>totalPaid = foldl js_add (Fin 0) (map parseFloat as),
      outstanding = Math_max0 (js_sub (parseFloat P) (foldl js_add (Fin 0) (map parseFloat as))),
      isFullyPaid =
        js_le (Math_max0 (js_sub (parseFloat P) (foldl js_add (Fin 0) (map parseFloat as))))
          (Fin 0)\<rparr>"

abbreviation amounts :: "enrollment_inc \<Rightarrow> rat list" where
  "amounts e \<equiv> map p_amount (inc_payments e)"

abbreviation price :: "enrollment_inc \<Rightarrow> rat" where
  "price e \<equiv> c_price (inc_course e)"

section \<open>Requests and responses\<close>

text \<open>
  JavaScript's \<^verbatim>\<open>String.prototype.trim\<close> on the ASCII white space; a string is a list
  of bytes here.  JavaScript also strips the white space beyond ASCII (U+00A0, U+FEFF,
  U+2028 and others) and counts a string's length in UTF-16 units, which this model of
  strings does not follow.
\<close>

definition is_space :: "char \<Rightarrow> bool" where
  "is_space c = (c \<in> set [CHR '' '', CHR 0x09, CHR 0x0A, CHR 0x0B, CHR 0x0C, CHR 0x0D])"

definition trim :: "string \<Rightarrow> string" where
  "trim s = rev (dropWhile is_space (rev (dropWhile is_space s)))"

text \<open>\<^verbatim>\<open>a || b\<close> on strings: the empty string is falsy.\<close>

definition or_else :: "string \<Rightarrow> string \<Rightarrow> string" where
  "or_else a b = (if a \<noteq> [] then a else b)"

text \<open>
  \<^verbatim>\<open>String.prototype.toLowerCase\<close> on ASCII letters.
\<close>

definition to_lower :: "char \<Rightarrow> char" where
  "to_lower c = (let n = (of_char c :: nat) in if 65 \<le> n \<and> n \<le> 90 then char_of (n + 32) else c)"

definition toLowerCase :: "string \<Rightarrow> string" where
  "toLowerCase s = map to_lower s"

text \<open>Truthiness of an optional string: \<^verbatim>\<open>undefined\<close> and the empty string are falsy.\<close>

definition truthy :: "string option \<Rightarrow> bool" where
  "truthy s = (case s of None \<Rightarrow> False | Some x \<Rightarrow> x \<noteq> [])"

subsection \<open>The composite creation's form data\<close>

record student_payload =
  sp_name :: "string option"
  sp_email :: "string option"
  sp_phone :: "string option"
  sp_nricPassportId :: "string option"
  sp_documents :: "string list"

record enrollment_payload =
  ep_courseId :: "string option"
  ep_batch :: "string option"
  ep_startDate :: "string option"
  ep_endDate :: "string option"
  ep_status :: "enrollment_status option"

text \<open>
  A payment amount of the form data: a JSON number, a non-empty string that the decimal
  constructor reads as a number, or a non-empty string that it rejects.  An empty string
  is falsy like a missing amount and is \<open>None\<close> in the payload.
\<close>

datatype json_amount = AmountNumber rat | AmountDecimalText rat | AmountOtherText

record payment_payload =
  pp_amount :: "json_amount option"
  pp_method :: "string option"
  pp_date :: "string option"
  pp_applyTo :: "string option"
  pp_enrollmentId :: "string option"
  pp_notes :: "string option"

record full_create_data =
  fc_student :: "student_payload option"
  fc_enrollment :: "enrollment_payload option"
  fc_payment :: "payment_payload option"

text \<open>\<^verbatim>\<open>JSON.parse(req.body.data || '{}')\<close>: the parsed object, or a syntax error.\<close>

datatype form_data = Malformed | Parsed full_create_data

text \<open>What the handler's \<^verbatim>\<open>catch\<close> can receive.\<close>

datatype thrown =
    SyntaxError
  | DuplicateNric
  | P2002 string
  | P2003 string
  | DecimalError
  | PrismaValidationError

record full_create_result =
  createdStudent :: student
  createdEnrollment :: "enrollment option"
  createdPayment :: "payment option"

subsection \<open>CSV rows\<close>

text \<open>A row as the CSV parser emits it: one optional string per known column.\<close>

record csv_row =
  csv_name :: "string option"
  csv_email :: "string option"
  csv_phone :: "string option"
  csv_course :: "string option"
  csv_batch :: "string option"
  csv_startDate :: "string option"
  csv_notes :: "string option"

record cleaned_row =
  cl_name :: string
  cl_email :: string
  cl_phone :: string
  cl_course :: "string option"
  cl_batch :: "string option"
  cl_startDate :: "string option"
  cl_notes :: "string option"

datatype row_data = RawRow csv_row | CleanedRow cleaned_row

record csv_error =
  ce_row :: nat
  ce_error :: string
  ce_data :: row_data

record csv_preview_json =
  cp_message :: string
  cp_totalRows :: nat
  cp_validRows :: nat
  cp_errorRows :: nat
  cp_preview :: "cleaned_row list"
  cp_errors :: "csv_error list"
  cp_sampleData :: "cleaned_row option"

subsection \<open>Pagination\<close>

text \<open>
  The query string's \<^verbatim>\<open>page\<close> and \<^verbatim>\<open>limit\<close>, absent or a string.  In the
  pagination object a number that is \<^verbatim>\<open>NaN\<close> or infinite is \<open>None\<close>: JSON writes it
  as \<^verbatim>\<open>null\<close>.
\<close>

record list_query =
  q_page :: "string option"
  q_limit :: "string option"

record pagination =
  pg_page :: "int option"
  pg_limit :: "int option"
  pg_total :: nat
  pg_pages :: "int option"

subsection \<open>Responses\<close>

text \<open>
  The JSON bodies the modelled handlers send, one constructor per shape, and the response
  with its HTTP status.  \<open>ErrorThrown\<close> is a body whose text is the message of the error
  caught.
\<close>

datatype body =
    ValidationErrors "string list"
  | ErrorMsg string
  | ErrorThrown thrown
  | ExceedsPrice string jsnum jsnum jsnum
  | PaymentJson payment
  | Message string
  | DeleteBlocked string nat
  | EnrollmentJson "enrollment_inc \<times> paymentStatus"
  | SummaryJson string "summary_item list" jsnum jsnum
  | FullCreateJson full_create_result
  | CsvPreviewJson csv_preview_json
  | StudentsList "student list" pagination
  | CoursesList "course list" pagination
  | EnrollmentsList "(enrollment_inc \<times> paymentStatus) list" pagination
  | PaymentsList "payment list" pagination

datatype response = Response (res_status: nat) (res_body: body)

section \<open>Payments\<close>

text \<open>
  The body of POST /payments and PUT /payments/:id.  An absent string field is the empty
  string, which the validators reject as they reject a missing value; \<open>rq_amount\<close> is
  the decimal numeral the body gives, or \<open>None\<close> for a value that is not a number.
\<close>

record payment_req =
  rq_studentId :: string
  rq_enrollmentId :: string
  rq_amount :: "rat option"
  rq_method :: string
  rq_date :: string
  rq_notes :: "string option"

definition payment_methods :: "string list" where
  "payment_methods =
     [''CASH'', ''BANK_TRANSFER'', ''CREDIT_CARD'', ''DEBIT_CARD'', ''ONLINE_PAYMENT'', ''CHECK'']"

text \<open>\<^verbatim>\<open>parseFloat(amount)\<close> of the request's amount.\<close>

definition amount_number :: "payment_req \<Rightarrow> jsnum" where
  "amount_number r = (case rq_amount r of None \<Rightarrow> NaN | Some a \<Rightarrow> parseFloat a)"

text \<open>
  \<^verbatim>\<open>validatePayment\<close> followed by \<^verbatim>\<open>validationResult(req)\<close>: the messages of the
  failed checks.  \<^verbatim>\<open>isFloat({ min: 0.01 })\<close> parses the numeral and compares the double
  with the double 0.01.  The validator library's \<^verbatim>\<open>isISO8601\<close> is a parameter.
\<close>

definition validatePayment :: "(string \<Rightarrow> bool) \<Rightarrow> payment_req \<Rightarrow> string list" where
  "validatePayment isISO8601 r =
     (if rq_studentId r = [] then [''Student ID is required''] else []) @
     (if rq_enrollmentId r = [] then [''Enrollment ID is required''] else []) @
     (case rq_amount r of
        None \<Rightarrow> [''Amount must be a positive number'']
      | Some a \<Rightarrow> if js_ge (parseFloat a) (parseFloat (1 / 100)) then []
                  else [''Amount must be a positive number'']) @
     (if rq_method r \<in> set payment_methods then [] else [''Invalid payment method'']) @
     (if isISO8601 (rq_date r) then [] else [''Date must be a valid date'']) @
     (case rq_notes r of
        None \<Rightarrow> []
      | Some n \<Rightarrow> if length (trim n) \<le> 500 then []
                  else [''Notes must be less than 500 characters''])"

text \<open>
  POST /payments.  \<open>new_id\<close> is the id the ORM gives the created row, and \<open>column\<close>
  the decimal that the amount column holds once the ORM has been handed a finite number:
  it depends on the column's precision and scale, which the schema (not among the
  sources) declares.  Reading \<^verbatim>\<open>enrollment.course.price\<close> of an enrollment without its
  course throws, and so does \<^verbatim>\<open>payment.create\<close> on an amount that is not a finite
  number; the handler's \<^verbatim>\<open>catch\<close> answers 500.
\<close>

definition post_payment ::
  "(string \<Rightarrow> bool) \<Rightarrow> (rat \<Rightarrow> rat) \<Rightarrow> string \<Rightarrow> db \<Rightarrow> payment_req \<Rightarrow> response \<times> db" where
  "post_payment isISO8601 column new_id d r =
     (let errors = validatePayment isISO8601 r in
      if errors \<noteq> [] then (Response 400 (ValidationErrors errors), d)
      else case findUnique st_id (students d) (rq_studentId r) of
        None \<Rightarrow> (Response 400 (ErrorMsg ''Student not found''), d)
      | Some student \<Rightarrow>
      (case findUnique e_id (enrollments d) (rq_enrollmentId r) of
        None \<Rightarrow> (Response 400 (ErrorMsg ''Enrollment not found''), d)
      | Some enrollment \<Rightarrow>
        if e_studentId enrollment \<noteq> rq_studentId r
        then (Response 400 (ErrorMsg ''Enrollment does not belong to the specified student''), d)
        else if e_status enrollment \<noteq> ACTIVE
        then (Response 400 (ErrorMsg ''Cannot record payment for inactive enrollment''), d)
        else
          let existingPayments = payments_of d (rq_enrollmentId r);
              totalPaid = reduce_amounts existingPayments
          in (case findUnique c_id (courses d) (e_courseId enrollment) of
                None \<Rightarrow> (Response 500 (ErrorMsg ''Failed to create payment''), d)
              | Some course \<Rightarrow>
                  let coursePrice = parseFloat (c_price course);
                      newTotalPaid = js_add totalPaid (amount_number r)
                  in if js_gt newTotalPaid coursePrice
                     then (Response 400 (ExceedsPrice ''Payment amount exceeds course price''
                             coursePrice totalPaid (js_sub coursePrice totalPaid)), d)
                     else
                       (case amount_number r of
                          Fin amount \<Rightarrow>
                            let payment = \<lparr>p_id = new_id, p_studentId = rq_studentId r,
                                           p_enrollmentId = rq_enrollmentId r,
                                           p_amount = column amount,
                                           p_method = rq_method r, p_date = rq_date r,
                                           p_notes = map_option trim (rq_notes r)\<rparr>;
                                d1 = d\<lparr>payments := payments d @ [payment]\<rparr>;
                                d2 = (if js_ge newTotalPaid coursePrice
                                      then d1\<lparr>enrollments :=
                                             update_row e_id (rq_enrollmentId r)
                                               (\<lambda>e. e\<lparr>e_status := COMPLETED\<rparr>) (enrollments d1)\<rparr>
                                      else d1)
                            in (Response 201 (PaymentJson payment), d2)
                        | _ \<Rightarrow> (Response 500 (ErrorMsg ''Failed to create payment''), d)))))"

text \<open>
  PUT /payments/:id.  A field that is \<^verbatim>\<open>undefined\<close> in the update's data keeps its
  stored value; an amount that is not a finite number makes the update throw.
\<close>

definition put_payment ::
  "(string \<Rightarrow> bool) \<Rightarrow> (rat \<Rightarrow> rat) \<Rightarrow> db \<Rightarrow> string \<Rightarrow> payment_req \<Rightarrow> response \<times> db" where
  "put_payment isISO8601 column d i r =
     (let errors = validatePayment isISO8601 r in
      if errors \<noteq> [] then (Response 400 (ValidationErrors errors), d)
      else case findUnique p_id (payments d) i of
        None \<Rightarrow> (Response 404 (ErrorMsg ''Payment not found''), d)
      | Some existingPayment \<Rightarrow>
        if rq_studentId r \<noteq> [] \<and> findUnique st_id (students d) (rq_studentId r) = None
        then (Response 400 (ErrorMsg ''Student not found''), d)
        else if rq_enrollmentId r \<noteq> []
                \<and> findUnique e_id (enrollments d) (rq_enrollmentId r) = None
        then (Response 400 (ErrorMsg ''Enrollment not found''), d)
        else if rq_enrollmentId r \<noteq> []
                \<and> map_option e_studentId (findUnique e_id (enrollments d) (rq_enrollmentId r))
                    \<noteq> Some (or_else (rq_studentId r) (p_studentId existingPayment))
        then (Response 400 (ErrorMsg ''Enrollment does not belong to the specified student''), d)
        else (case amount_number r of
                Fin amount \<Rightarrow>
                  let payment = \<lparr>p_id = i,
                                 p_studentId = or_else (rq_studentId r) (p_studentId existingPayment),
                                 p_enrollmentId =
                                   or_else (rq_enrollmentId r) (p_enrollmentId existingPayment),
                                 p_amount = column amount, p_method = rq_method r,
                                 p_date = rq_date r,
                                 p_notes = (case rq_notes r of
                                              None \<Rightarrow> p_notes existingPayment
                                            | Some n \<Rightarrow> Some (trim n))\<rparr>
                  in (Response 200 (PaymentJson payment),
                      d\<lparr>payments := update_row p_id i (\<lambda>_. payment) (payments d)\<rparr>)
              | _ \<Rightarrow> (Response 500 (ErrorMsg ''Failed to update payment''), d)))"

text \<open>
  The invariant of the data model, on the decimals the tables hold: for every enrollment
  whose course is on record, the payments recorded against it do not add up to more than
  the course price.
\<close>

definition within_price :: "db \<Rightarrow> enrollment \<Rightarrow> bool" where
  "within_price d e =
     (case findUnique c_id (courses d) (e_courseId e) of
        None \<Rightarrow> True
      | Some c \<Rightarrow> sum_list (map p_amount (payments_of d (e_id e))) \<le> c_price c)"

definition payments_within_price :: "db \<Rightarrow> bool" where
  "payments_within_price d = list_all (within_price d) (enrollments d)"

section \<open>POST /payments, one database call at a time\<close>

text \<open>
  The handler of POST /payments is an \<^verbatim>\<open>async\<close> function: it runs without
  interruption from one \<^verbatim>\<open>await\<close> to the next, and between two of them the event
  loop may run another request's handler.  No transaction spans its database calls.  A
  step below is one database call together with the synchronous code up to the next
  \<^verbatim>\<open>await\<close>; the program counter holds the local variables that are still live.
\<close>

datatype post_pc =
    AtFindStudent
  | AtFindEnrollment
  | AtFindPayments enrollment "course option"
  | AtCreate jsnum jsnum jsnum
  | AtUpdate payment
  | Responded response

fun post_payment_step ::
  "(string \<Rightarrow> bool) \<Rightarrow> (rat \<Rightarrow> rat) \<Rightarrow> string \<Rightarrow> payment_req \<Rightarrow> post_pc \<Rightarrow> db
     \<Rightarrow> post_pc \<times> db" where
  "post_payment_step isISO8601 column new_id r AtFindStudent d =
     (let errors = validatePayment isISO8601 r in
      if errors \<noteq> [] then (Responded (Response 400 (ValidationErrors errors)), d)
      else case findUnique st_id (students d) (rq_studentId r) of
        None \<Rightarrow> (Responded (Response 400 (ErrorMsg ''Student not found'')), d)
      | Some student \<Rightarrow> (AtFindEnrollment, d))"
| "post_payment_step isISO8601 column new_id r AtFindEnrollment d =
     (case findUnique e_id (enrollments d) (rq_enrollmentId r) of
        None \<Rightarrow> (Responded (Response 400 (ErrorMsg ''Enrollment not found'')), d)
      | Some enrollment \<Rightarrow>
        if e_studentId enrollment \<noteq> rq_studentId r
        then (Responded (Response 400
                (ErrorMsg ''Enrollment does not belong to the specified student'')), d)
        else if e_status enrollment \<noteq> ACTIVE
        then (Responded (Response 400
                (ErrorMsg ''Cannot record payment for inactive enrollment'')), d)
        else (AtFindPayments enrollment (findUnique c_id (courses d) (e_courseId enrollment)), d))"
| "post_payment_step isISO8601 column new_id r (AtFindPayments enrollment course) d =
     (let existingPayments = payments_of d (rq_enrollmentId r);
          totalPaid = reduce_amounts existingPayments
      in case course of
           None \<Rightarrow> (Responded (Response 500 (ErrorMsg ''Failed to create payment'')), d)
         | Some course \<Rightarrow>
             let coursePrice = parseFloat (c_price course);
                 newTotalPaid = js_add totalPaid (amount_number r)
             in if js_gt newTotalPaid coursePrice
                then (Responded (Response 400 (ExceedsPrice ''Payment amount exceeds course price''
                        coursePrice totalPaid (js_sub coursePrice totalPaid))), d)
                else (AtCreate (amount_number r) newTotalPaid coursePrice, d))"
| "post_payment_step isISO8601 column new_id r (AtCreate number newTotalPaid coursePrice) d =
     (case number of
        Fin amount \<Rightarrow>
          let payment = \<lparr>p_id = new_id, p_studentId = rq_studentId r,
                         p_enrollmentId = rq_enrollmentId r, p_amount = column amount,
                         p_method = rq_method r, p_date = rq_date r,
                         p_notes = map_option trim (rq_notes r)\<rparr>;
              d1 = d\<lparr>payments := payments d @ [payment]\<rparr>
          in if js_ge newTotalPaid coursePrice then (AtUpdate payment, d1)
             else (Responded (Response 201 (PaymentJson payment)), d1)
      | _ \<Rightarrow> (Responded (Response 500 (ErrorMsg ''Failed to create payment'')), d))"
| "post_payment_step isISO8601 column new_id r (AtUpdate payment) d =
     (Responded (Response 201 (PaymentJson payment)),
      d\<lparr>enrollments := update_row e_id (rq_enrollmentId r)
                          (\<lambda>e. e\<lparr>e_status := COMPLETED\<rparr>) (enrollments d)\<rparr>)"
| "post_payment_step isISO8601 column new_id r (Responded res) d = (Responded res, d)"

text \<open>A handler running alone, and two handlers taking turns on one database.\<close>

fun run_post ::
  "(string \<Rightarrow> bool) \<Rightarrow> (rat \<Rightarrow> rat) \<Rightarrow> string \<Rightarrow> payment_req \<Rightarrow> nat \<Rightarrow> post_pc \<times> db
     \<Rightarrow> post_pc \<times> db" where
  "run_post isISO8601 column new_id r 0 s = s"
| "run_post isISO8601 column new_id r (Suc n) (pc, d) =
     run_post isISO8601 column new_id r n (post_payment_step isISO8601 column new_id r pc d)"

datatype turn = First | Second

fun interleave ::
  "(string \<Rightarrow> bool) \<Rightarrow> (rat \<Rightarrow> rat) \<Rightarrow> string \<times> payment_req \<Rightarrow> string \<times> payment_req
     \<Rightarrow> turn list \<Rightarrow> post_pc \<times> post_pc \<times> db \<Rightarrow> post_pc \<times> post_pc \<times> db" where
  "interleave isISO8601 column a b [] s = s"
| "interleave isISO8601 column a b (First # ts) (pa, pb, d) =
     (case post_payment_step isISO8601 column (fst a) (snd a) pa d of
        (pa', d') \<Rightarrow> interleave isISO8601 column a b ts (pa', pb, d'))"
| "interleave isISO8601 column a b (Second # ts) (pa, pb, d) =
     (case post_payment_step isISO8601 column (fst b) (snd b) pb d of
        (pb', d') \<Rightarrow> interleave isISO8601 column a b ts (pa, pb', d'))"

section \<open>Enrollment and course routes\<close>

text \<open>GET /enrollments/:id.\<close>

definition get_enrollment :: "db \<Rightarrow> string \<Rightarrow> response" where
  "get_enrollment d i =
     (case findUnique e_id (enrollments d) i of
        None \<Rightarrow> Response 404 (ErrorMsg ''Enrollment not found'')
      | Some e \<Rightarrow>
        (case include_course_payments d e of
           None \<Rightarrow> Response 500 (ErrorMsg ''Failed to fetch enrollment'')
         | Some enrollment \<Rightarrow> Response 200 (EnrollmentJson (enrollmentWithPaymentStatus enrollment))))"

text \<open>GET /payments/student/:studentId/summary.\<close>

definition get_student_summary :: "db \<Rightarrow> string \<Rightarrow> response" where
  "get_student_summary d studentId =
     (case those_opt (map (include_course_payments d)
                        (filter (\<lambda>e. e_studentId e = studentId) (enrollments d))) of
        None \<Rightarrow> Response 500 (ErrorMsg ''Failed to fetch payment summary'')
      | Some rows \<Rightarrow>
          let items = summary rows;
              totalOutstanding =
                foldl (\<lambda>sum item. js_add sum (si_outstanding item)) (Fin 0) items;
              totalPaid = foldl (\<lambda>sum item. js_add sum (si_totalPaid item)) (Fin 0) items
          in Response 200 (SummaryJson studentId items totalOutstanding totalPaid))"

text \<open>
  The outstanding amount of GET /dashboard/overview and GET /dashboard/payments: the
  ACTIVE enrollments with their course and payments, reduced; \<open>None\<close> when the query
  throws.
\<close>

definition dashboard_outstandingAmount :: "db \<Rightarrow> jsnum option" where
  "dashboard_outstandingAmount d =
     map_option outstandingAmount
       (those_opt (map (include_course_payments d)
                     (filter (\<lambda>e. e_status e = ACTIVE) (enrollments d))))"

text \<open>
  DELETE /courses/:id.  Deleting a row that does not exist makes the ORM throw P2025,
  which the handler answers with 404.
\<close>

definition delete_course :: "db \<Rightarrow> string \<Rightarrow> response \<times> db" where
  "delete_course d i =
     (let referencing = filter (\<lambda>e. e_courseId e = i) (enrollments d) in
      if length referencing > 0
      then (Response 400 (DeleteBlocked ''Cannot delete course with active enrollments''
              (length referencing)), d)
      else case findUnique c_id (courses d) i of
        None \<Rightarrow> (Response 404 (ErrorMsg ''Course not found''), d)
      | Some _ \<Rightarrow> (Response 200 (Message ''Course deleted successfully''),
                   d\<lparr>courses := delete_row c_id i (courses d)\<rparr>))"

text \<open>DELETE /enrollments/:id.\<close>

definition delete_enrollment :: "db \<Rightarrow> string \<Rightarrow> response \<times> db" where
  "delete_enrollment d i =
     (let referencing = payments_of d i in
      if length referencing > 0
      then (Response 400 (DeleteBlocked ''Cannot delete enrollment with payment records''
              (length referencing)), d)
      else case findUnique e_id (enrollments d) i of
        None \<Rightarrow> (Response 404 (ErrorMsg ''Enrollment not found''), d)
      | Some _ \<Rightarrow> (Response 200 (Message ''Enrollment deleted successfully''),
                   d\<lparr>enrollments := delete_row e_id i (enrollments d)\<rparr>))"

section \<open>List endpoints\<close>

text \<open>
  \<^verbatim>\<open>parseInt\<close> with no radix argument: leading white space, an optional sign, an
  optional \<^verbatim>\<open>0x\<close> prefix, then the longest run of digits of the radix; \<open>None\<close> is
  \<^verbatim>\<open>NaN\<close>.  The value is the exact integer; JavaScript rounds it to a double, which
  differs beyond \<open>2\<^sup>5\<^sup>3\<close>.
\<close>

definition digit_of :: "char \<Rightarrow> nat option" where
  "digit_of c =
     (let n = (of_char c :: nat) in
      if 48 \<le> n \<and> n \<le> 57 then Some (n - 48)
      else if 97 \<le> n \<and> n \<le> 122 then Some (n - 87)
      else if 65 \<le> n \<and> n \<le> 90 then Some (n - 55)
      else None)"

definition is_digit :: "nat \<Rightarrow> char \<Rightarrow> bool" where
  "is_digit radix c = (case digit_of c of None \<Rightarrow> False | Some v \<Rightarrow> v < radix)"

definition digits_value :: "nat \<Rightarrow> string \<Rightarrow> nat" where
  "digits_value radix ds =
     foldl (\<lambda>acc c. acc * radix + (case digit_of c of None \<Rightarrow> 0 | Some v \<Rightarrow> v)) 0 ds"

definition parseInt :: "string \<Rightarrow> int option" where
  "parseInt s =
     (let s1 = dropWhile is_space s;
          neg = (take 1 s1 = ''-'');
          s2 = (if take 1 s1 = ''-'' \<or> take 1 s1 = ''+'' then drop 1 s1 else s1);
          hex = (take 2 s2 = ''0x'' \<or> take 2 s2 = ''0X'');
          radix = (if hex then 16 else 10);
          ds = takeWhile (is_digit radix) (if hex then drop 2 s2 else s2)
      in if ds = [] then None
         else Some (if neg then - int (digits_value radix ds) else int (digits_value radix ds)))"

text \<open>\<^verbatim>\<open>page = 1\<close> and \<^verbatim>\<open>limit = 20\<close> when the query does not give them.\<close>

definition query_page :: "list_query \<Rightarrow> int option" where
  "query_page q = (case q_page q of None \<Rightarrow> Some 1 | Some s \<Rightarrow> parseInt s)"

definition query_limit :: "list_query \<Rightarrow> int option" where
  "query_limit q = (case q_limit q of None \<Rightarrow> Some 20 | Some s \<Rightarrow> parseInt s)"

text \<open>\<^verbatim>\<open>(parseInt(page) - 1) * parseInt(limit)\<close>.\<close>

definition skip_of :: "int option \<Rightarrow> int option \<Rightarrow> int option" where
  "skip_of page limit =
     (case (page, limit) of (Some p, Some l) \<Rightarrow> Some ((p - 1) * l) | _ \<Rightarrow> None)"

text \<open>
  \<^verbatim>\<open>Math.ceil(total / parseInt(limit))\<close>: not a finite number when the limit is
  \<^verbatim>\<open>NaN\<close> or zero.
\<close>

definition pages_of :: "nat \<Rightarrow> int option \<Rightarrow> int option" where
  "pages_of totalRows limit =
     (case limit of
        None \<Rightarrow> None
      | Some l \<Rightarrow> if l = 0 then None else Some \<lceil>(of_nat totalRows :: rat) / of_int l\<rceil>)"

text \<open>
  The four list handlers.  \<open>matching\<close> are the rows that satisfy the handler's
  \<^verbatim>\<open>where\<close>, in its \<^verbatim>\<open>orderBy\<close> order and with its \<^verbatim>\<open>include\<close>;
  \<^verbatim>\<open>count({ where })\<close> is their number.  \<open>window\<close> is the ORM's \<^verbatim>\<open>skip\<close> and
  \<^verbatim>\<open>take\<close>, a parameter: it gives \<open>None\<close> when the ORM rejects the arguments, and the
  handler's \<^verbatim>\<open>catch\<close> answers 500.
\<close>

definition get_students ::
  "(student list \<Rightarrow> int option \<Rightarrow> int option \<Rightarrow> student list option)
     \<Rightarrow> student list \<Rightarrow> list_query \<Rightarrow> response" where
  "get_students window matching q =
     (let skip = skip_of (query_page q) (query_limit q);
          totalRows = length matching
      in case window matching skip (query_limit q) of
           None \<Rightarrow> Response 500 (ErrorMsg ''Failed to fetch students'')
         | Some rows \<Rightarrow>
             Response 200 (StudentsList rows
               \<lparr>pg_page = query_page q, pg_limit = query_limit q, pg_total = totalRows,
                pg_pages = pages_of totalRows (query_limit q)\<rparr>))"

definition get_courses ::
  "(course list \<Rightarrow> int option \<Rightarrow> int option \<Rightarrow> course list option)
     \<Rightarrow> course list \<Rightarrow> list_query \<Rightarrow> response" where
  "get_courses window matching q =
     (let skip = skip_of (query_page q) (query_limit q);
          totalRows = length matching
      in case window matching skip (query_limit q) of
           None \<Rightarrow> Response 500 (ErrorMsg ''Failed to fetch courses'')
         | Some rows \<Rightarrow>
             Response 200 (CoursesList rows
               \<lparr>pg_page = query_page q, pg_limit = query_limit q, pg_total = totalRows,
                pg_pages = pages_of totalRows (query_limit q)\<rparr>))"

definition get_enrollments ::
  "(enrollment_inc list \<Rightarrow> int option \<Rightarrow> int option \<Rightarrow> enrollment_inc list option)
     \<Rightarrow> enrollment_inc list \<Rightarrow> list_query \<Rightarrow> response" where
  "get_enrollments window matching q =
     (let skip = skip_of (query_page q) (query_limit q);
          totalRows = length matching
      in case window matching skip (query_limit q) of
           None \<Rightarrow> Response 500 (ErrorMsg ''Failed to fetch enrollments'')
         | Some rows \<Rightarrow>
             Response 200 (EnrollmentsList (enrollmentsWithPaymentStatus rows)
               \<lparr>pg_page = query_page q, pg_limit = query_limit q, pg_total = totalRows,
                pg_pages = pages_of totalRows (query_limit q)\<rparr>))"

definition get_payments ::
  "(payment list \<Rightarrow> int option \<Rightarrow> int option \<Rightarrow> payment list option)
     \<Rightarrow> payment list \<Rightarrow> list_query \<Rightarrow> response" where
  "get_payments window matching q =
     (let skip = skip_of (query_page q) (query_limit q);
          totalRows = length matching
      in case window matching skip (query_limit q) of
           None \<Rightarrow> Response 500 (ErrorMsg ''Failed to fetch payments'')
         | Some rows \<Rightarrow>
             Response 200 (PaymentsList rows
               \<lparr>pg_page = query_page q, pg_limit = query_limit q, pg_total = totalRows,
                pg_pages = pages_of totalRows (query_limit q)\<rparr>))"

text \<open>
  The property under which a list handler's \<^verbatim>\<open>res.json\<close> sends the rows, next to
  \<^verbatim>\<open>pagination\<close>.
\<close>

fun rows_key :: "body \<Rightarrow> string option" where
  "rows_key (StudentsList _ _) = Some ''students''"
| "rows_key (CoursesList _ _) = Some ''courses''"
| "rows_key (EnrollmentsList _ _) = Some ''enrollments''"
| "rows_key (PaymentsList _ _) = Some ''payments''"
| "rows_key _ = None"

section \<open>CSV import\<close>

definition str_of :: "string option \<Rightarrow> string" where
  "str_of s = (case s of None \<Rightarrow> [] | Some x \<Rightarrow> x)"

text \<open>
  The \<^verbatim>\<open>data\<close> handler of \<^verbatim>\<open>parseCSV\<close>: one parsed row, given the results and
  the errors collected so far.  An error's row number is the number of valid rows so far
  plus one, as in the source.
\<close>

definition on_data :: "cleaned_row list \<times> csv_error list \<Rightarrow> csv_row \<Rightarrow> cleaned_row list \<times> csv_error list" where
  "on_data acc data =
     (case acc of (results, errors) \<Rightarrow>
        if \<not> truthy (csv_name data) \<or> \<not> truthy (csv_email data) \<or> \<not> truthy (csv_phone data)
        then (results,
              errors @ [\<lparr>ce_row = length results + 1,
                         ce_error = ''Missing required fields (name, email, phone)'',
                         ce_data = RawRow data\<rparr>])
        else
          let cleanedData =
                \<lparr>cl_name = trim (str_of (csv_name data)),
                 cl_email = toLowerCase (trim (str_of (csv_email data))),
                 cl_phone = trim (str_of (csv_phone data)),
                 cl_course = map_option trim (csv_course data),
                 cl_batch = map_option trim (csv_batch data),
                 cl_startDate = map_option trim (csv_startDate data),
                 cl_notes = map_option trim (csv_notes data)\<rparr>
          in if length (cl_name cleanedData) < 2
             then (results,
                   errors @ [\<lparr>ce_row = length results + 1,
                              ce_error = ''Name must be at least 2 characters'',
                              ce_data = CleanedRow cleanedData\<rparr>])
             else if CHR ''@'' \<notin> set (cl_email cleanedData)
             then (results,
                   errors @ [\<lparr>ce_row = length results + 1,
                              ce_error = ''Invalid email format'',
                              ce_data = CleanedRow cleanedData\<rparr>])
             else if length (cl_phone cleanedData) < 10
             then (results,
                   errors @ [\<lparr>ce_row = length results + 1,
                              ce_error = ''Phone number too short'',
                              ce_data = CleanedRow cleanedData\<rparr>])
             else (results @ [cleanedData], errors))"

text \<open>
  \<^verbatim>\<open>parseCSV\<close> on the rows the CSV parser emits for the file, in order; the promise
  resolves with the results and the errors.
\<close>

definition parseCSV :: "csv_row list \<Rightarrow> cleaned_row list \<times> csv_error list" where
  "parseCSV rows = foldl on_data ([], []) rows"

text \<open>
  POST /upload/csv-preview.  \<open>file\<close> is \<open>None\<close> when no file was uploaded.  The handler
  makes no database call; the database is passed through to say so.
\<close>

definition csv_preview :: "db \<Rightarrow> csv_row list option \<Rightarrow> response \<times> db" where
  "csv_preview d file =
     (case file of
        None \<Rightarrow> (Response 400 (ErrorMsg ''No file uploaded''), d)
      | Some rows \<Rightarrow>
        (case parseCSV rows of (results, errors) \<Rightarrow>
           (Response 200 (CsvPreviewJson
              \<lparr>cp_message = ''CSV parsed successfully'',
               cp_totalRows = length results + length errors,
               cp_validRows = length results,
               cp_errorRows = length errors,
               cp_preview = take 10 results,
               cp_errors = take 10 errors,
               cp_sampleData = (case results of [] \<Rightarrow> None | x # _ \<Rightarrow> Some x)\<rparr>), d)))"

text \<open>
  A valid row in the specification's words: name, email and phone populated, and passing
  the length and format checks made on the cleaned values.
\<close>

definition valid_csv_row :: "csv_row \<Rightarrow> bool" where
  "valid_csv_row r =
     (truthy (csv_name r) \<and> truthy (csv_email r) \<and> truthy (csv_phone r)
      \<and> 2 \<le> length (trim (str_of (csv_name r)))
      \<and> CHR ''@'' \<in> set (toLowerCase (trim (str_of (csv_email r))))
      \<and> 10 \<le> length (trim (str_of (csv_phone r))))"

section \<open>Composite creation\<close>

text \<open>\<^verbatim>\<open>x || undefined\<close> on an optional string.\<close>

definition truthy_or_none :: "string option \<Rightarrow> string option" where
  "truthy_or_none s = (if truthy s then s else None)"

text \<open>
  Modelled from the spec: the schema file is not among the sources.  By the data model a
  student's email and national ID are unique, an enrollment belongs to one student and
  one course, and a payment to one student and one enrollment; the payment method and
  the enrollment status are closed enums.  A create that breaks a unique constraint
  throws P2002 and one that breaks a reference throws P2003; a value that is no date, no
  member of its enum, or missing where one is required makes the ORM throw a validation
  error before the row is written.  \<open>validDate\<close> says which strings \<^verbatim>\<open>new Date\<close>
  turns into a date.
\<close>

definition student_create :: "student \<Rightarrow> db \<Rightarrow> thrown + db" where
  "student_create row tx =
     (if find (\<lambda>s. st_email s = st_email row) (students tx) \<noteq> None
      then Inl (P2002 ''email'')
      else if st_nricPassportId row \<noteq> None
              \<and> find (\<lambda>s. st_nricPassportId s = st_nricPassportId row) (students tx) \<noteq> None
      then Inl (P2002 ''nricPassportId'')
      else Inr (tx\<lparr>students := students tx @ [row]\<rparr>))"

definition enrollment_create :: "enrollment \<Rightarrow> db \<Rightarrow> thrown + db" where
  "enrollment_create row tx =
     (if findUnique st_id (students tx) (e_studentId row) = None
      then Inl (P2003 ''studentId'')
      else if findUnique c_id (courses tx) (e_courseId row) = None
      then Inl (P2003 ''courseId'')
      else Inr (tx\<lparr>enrollments := enrollments tx @ [row]\<rparr>))"

definition payment_create ::
  "(string \<Rightarrow> bool) \<Rightarrow> string \<Rightarrow> string \<Rightarrow> string option \<Rightarrow> rat \<Rightarrow> string \<Rightarrow> string
     \<Rightarrow> string option \<Rightarrow> db \<Rightarrow> thrown + payment \<times> db" where
  "payment_create validDate new_id studentId enrollmentId amount method date notes tx =
     (case enrollmentId of
        None \<Rightarrow> Inl PrismaValidationError
      | Some eid \<Rightarrow>
        if method \<notin> set payment_methods \<or> \<not> validDate date
        then Inl PrismaValidationError
        else if findUnique st_id (students tx) studentId = None
        then Inl (P2003 ''studentId'')
        else if findUnique e_id (enrollments tx) eid = None
        then Inl (P2003 ''enrollmentId'')
        else
          let row = \<lparr>p_id = new_id, p_studentId = studentId, p_enrollmentId = eid,
                     p_amount = amount, p_method = method, p_date = date, p_notes = notes\<rparr>
          in Inr (row, tx\<lparr>payments := payments tx @ [row]\<rparr>))"

text \<open>
  \<^verbatim>\<open>prisma.$transaction(async (tx) => ...)\<close>: the callback's writes are committed when
  it returns and discarded when it throws.
\<close>

definition transaction :: "(db \<Rightarrow> thrown + 'a \<times> db) \<Rightarrow> db \<Rightarrow> (thrown + 'a) \<times> db" where
  "transaction callback d =
     (case callback d of
        Inl err \<Rightarrow> (Inl err, d)
      | Inr (result, tx) \<Rightarrow> (Inr result, tx))"

text \<open>\<^verbatim>\<open>new Prisma.Decimal(payment.amount)\<close> and the truthiness of the amount.\<close>

definition Decimal :: "json_amount \<Rightarrow> thrown + rat" where
  "Decimal a =
     (case a of
        AmountNumber r \<Rightarrow> Inr r
      | AmountDecimalText r \<Rightarrow> Inr r
      | AmountOtherText \<Rightarrow> Inl DecimalError)"

definition amount_truthy :: "json_amount option \<Rightarrow> bool" where
  "amount_truthy a =
     (case a of None \<Rightarrow> False | Some (AmountNumber r) \<Rightarrow> r \<noteq> 0 | Some _ \<Rightarrow> True)"

text \<open>
  The optional enrollment of the transaction: \<^verbatim>\<open>if (enrollment?.courseId)\<close>.  A
  start or end date of the payload that is no date is rejected by the create; the default
  start date is the current time \<open>now\<close>.
\<close>

definition tx_enrollment ::
  "(string \<Rightarrow> bool) \<Rightarrow> string \<Rightarrow> string \<Rightarrow> student \<Rightarrow> enrollment_payload option \<Rightarrow> db
     \<Rightarrow> thrown + enrollment option \<times> db" where
  "tx_enrollment validDate now new_id newStudent enrollment tx =
     (case enrollment of
        None \<Rightarrow> Inr (None, tx)
      | Some ep \<Rightarrow>
        if \<not> truthy (ep_courseId ep) then Inr (None, tx)
        else
          let row = \<lparr>e_id = new_id, e_studentId = st_id newStudent,
                     e_courseId = str_of (ep_courseId ep),
                     e_batch = truthy_or_none (ep_batch ep),
                     e_startDate =
                       (if truthy (ep_startDate ep) then str_of (ep_startDate ep) else now),
                     e_endDate = truthy_or_none (ep_endDate ep),
                     e_status = (case ep_status ep of None \<Rightarrow> ACTIVE | Some s \<Rightarrow> s)\<rparr>
          in if (truthy (ep_startDate ep) \<and> \<not> validDate (str_of (ep_startDate ep)))
                \<or> (truthy (ep_endDate ep) \<and> \<not> validDate (str_of (ep_endDate ep)))
             then Inl PrismaValidationError
             else case enrollment_create row tx of
                    Inl err \<Rightarrow> Inl err
                  | Inr tx' \<Rightarrow> Inr (Some row, tx'))"

text \<open>
  The optional payment of the transaction:
  \<^verbatim>\<open>if (payment?.amount && payment?.method && payment?.date)\<close>.
\<close>

definition tx_payment ::
  "(string \<Rightarrow> bool) \<Rightarrow> string \<Rightarrow> student \<Rightarrow> enrollment option \<Rightarrow> payment_payload option \<Rightarrow> db
     \<Rightarrow> thrown + payment option \<times> db" where
  "tx_payment validDate new_id newStudent newEnrollment payment tx =
     (case payment of
        None \<Rightarrow> Inr (None, tx)
      | Some pp \<Rightarrow>
        (case pp_amount pp of
           None \<Rightarrow> Inr (None, tx)
         | Some amount \<Rightarrow>
           if \<not> (amount_truthy (pp_amount pp) \<and> truthy (pp_method pp) \<and> truthy (pp_date pp))
           then Inr (None, tx)
           else
             let enrollmentId =
                   (if pp_applyTo pp = Some ''enrollment'' then map_option e_id newEnrollment
                    else truthy_or_none (pp_enrollmentId pp));
                 target =
                   (if truthy enrollmentId then enrollmentId
                    else case newEnrollment of
                           Some e \<Rightarrow> Some (e_id e)
                         | None \<Rightarrow> pp_enrollmentId pp)
             in case Decimal amount of
                  Inl err \<Rightarrow> Inl err
                | Inr a \<Rightarrow>
                  (case payment_create validDate new_id (st_id newStudent) target a
                          (str_of (pp_method pp)) (str_of (pp_date pp))
                          (truthy_or_none (pp_notes pp)) tx of
                     Inl err \<Rightarrow> Inl err
                   | Inr (row, tx') \<Rightarrow> Inr (Some row, tx'))))"

text \<open>
  The callback of the transaction.  \<open>ids\<close> are the ids the ORM gives the student, the
  enrollment and the payment it creates.
\<close>

definition full_create_tx ::
  "(string \<Rightarrow> bool) \<Rightarrow> string \<Rightarrow> string \<times> string \<times> string \<Rightarrow> string list \<Rightarrow> full_create_data
     \<Rightarrow> student_payload \<Rightarrow> db \<Rightarrow> thrown + full_create_result \<times> db" where
  "full_create_tx validDate now ids paths parsed studentPayload tx =
     (case ids of (student_id, enrollment_id, payment_id) \<Rightarrow>
      (case find (\<lambda>s. st_nricPassportId s = sp_nricPassportId studentPayload) (students tx) of
         Some dup \<Rightarrow> Inl DuplicateNric
       | None \<Rightarrow>
         let row = \<lparr>st_id = student_id,
                    st_name = str_of (sp_name studentPayload),
                    st_email = str_of (sp_email studentPayload),
                    st_phone = str_of (sp_phone studentPayload),
                    st_nricPassportId = sp_nricPassportId studentPayload,
                    st_documents = sp_documents studentPayload @ paths\<rparr>
         in case student_create row tx of
              Inl err \<Rightarrow> Inl err
            | Inr tx1 \<Rightarrow>
              (case tx_enrollment validDate now enrollment_id row (fc_enrollment parsed) tx1 of
                 Inl err \<Rightarrow> Inl err
               | Inr (enr, tx2) \<Rightarrow>
                 (case tx_payment validDate payment_id row enr (fc_payment parsed) tx2 of
                    Inl err \<Rightarrow> Inl err
                  | Inr (pay, tx3) \<Rightarrow>
                      Inr (\<lparr>createdStudent = row, createdEnrollment = enr,
                            createdPayment = pay\<rparr>, tx3)))))"

text \<open>
  The handler's \<^verbatim>\<open>catch\<close>: every branch answers 400.  Where the body relays the
  caught error's own message, the body is \<open>ErrorThrown\<close> of that error.
\<close>

definition full_create_catch :: "thrown \<Rightarrow> response" where
  "full_create_catch err =
     (case err of
        P2002 field \<Rightarrow>
          if field = ''email''
          then Response 400
                 (ErrorMsg ''Email address already exists. Please use a different email.'')
          else if field = ''nricPassportId''
          then Response 400
                 (ErrorMsg ''NRIC/Passport ID already exists. Please use a different ID.'')
          else Response 400 (ErrorThrown err)
      | DuplicateNric \<Rightarrow>
          Response 400 (ErrorMsg ''NRIC/Passport ID already exists. Please use a different ID.'')
      | DecimalError \<Rightarrow>
          Response 400 (ErrorMsg ''Invalid payment amount. Please enter a valid number.'')
      | _ \<Rightarrow> Response 400 (ErrorThrown err))"

text \<open>
  POST /students/full-create.  \<open>files\<close> are the stored names of the uploaded documents,
  and \<^verbatim>\<open>docPaths\<close> their paths.
\<close>

definition docPaths :: "string list \<Rightarrow> string list" where
  "docPaths files = map (\<lambda>f. ''/uploads/student-docs/'' @ f) files"

definition full_create ::
  "(string \<Rightarrow> bool) \<Rightarrow> string \<Rightarrow> string \<times> string \<times> string \<Rightarrow> string list \<Rightarrow> db \<Rightarrow> form_data
     \<Rightarrow> response \<times> db" where
  "full_create validDate now ids files d data =
     (case data of
        Malformed \<Rightarrow> (full_create_catch SyntaxError, d)
      | Parsed parsed \<Rightarrow>
        (case fc_student parsed of
           None \<Rightarrow> (Response 400 (ErrorMsg ''Missing required student fields''), d)
         | Some studentPayload \<Rightarrow>
           if \<not> truthy (sp_name studentPayload) \<or> \<not> truthy (sp_email studentPayload)
              \<or> \<not> truthy (sp_phone studentPayload) \<or> \<not> truthy (sp_nricPassportId studentPayload)
           then (Response 400 (ErrorMsg ''Missing required student fields''), d)
           else
             case transaction
                    (full_create_tx validDate now ids (docPaths files) parsed studentPayload) d of
                  (Inr result, d') \<Rightarrow> (Response 201 (FullCreateJson result), d')
                | (Inl err, d') \<Rightarrow> (full_create_catch err, d')))"

section \<open>A worked example\<close>

text \<open>
  One student enrolled in a course priced 1000.00, with one payment of 400.00 on record.
\<close>

definition demo_student :: student where
  "demo_student = \<lparr>st_id = ''s1'', st_name = ''Ana Lim'', st_email = ''ana@example.com'',
     st_phone = ''0123456789'', st_nricPassportId = Some ''A1234567'', st_documents = []\<rparr>"

definition demo_course :: course where
  "demo_course = \<lparr>c_id = ''c1'', c_name = ''Web Development'', c_price = 1000,
     c_isActive = True\<rparr>"

definition demo_enrollment :: enrollment where
  "demo_enrollment = \<lparr>e_id = ''e1'', e_studentId = ''s1'', e_courseId = ''c1'',
     e_batch = None, e_startDate = ''2024-01-15'', e_endDate = None, e_status = ACTIVE\<rparr>"

definition demo_payment :: payment where
  "demo_payment = \<lparr>p_id = ''p1'', p_studentId = ''s1'', p_enrollmentId = ''e1'',
     p_amount = 400, p_method = ''CASH'', p_date = ''2024-01-16'', p_notes = None\<rparr>"

definition demo_db :: db where
  "demo_db = \<lparr>students = [demo_student], courses = [demo_course],
     enrollments = [demo_enrollment], payments = [demo_payment]\<rparr>"

definition demo_req :: "rat \<Rightarrow> payment_req" where
  "demo_req a = \<lparr>rq_studentId = ''s1'', rq_enrollmentId = ''e1'', rq_amount = Some a,
     rq_method = ''CASH'', rq_date = ''2024-02-01'', rq_notes = None\<rparr>"

text \<open>A request for the second page of two rows.\<close>

definition demo_query :: list_query where
  "demo_query = \<lparr>q_page = Some ''2'', q_limit = Some ''2''\<rparr>"

text \<open>
  A \<open>window\<close> for the examples: \<^verbatim>\<open>skip\<close> rows dropped, then \<^verbatim>\<open>take\<close> rows kept,
  for arguments that are numbers and not negative.
\<close>

definition demo_window :: "'r list \<Rightarrow> int option \<Rightarrow> int option \<Rightarrow> 'r list option" where
  "demo_window rows skip tk =
     (case (skip, tk) of
        (Some s, Some t) \<Rightarrow> if 0 \<le> s \<and> 0 \<le> t then Some (take (nat t) (drop (nat s) rows)) else None
      | _ \<Rightarrow> None)"

text \<open>A row of the import template.\<close>

definition demo_csv_row :: csv_row where
  "demo_csv_row = \<lparr>csv_name = Some ''John Doe'', csv_email = Some ''john@example.com'',
     csv_phone = Some ''1234567890'', csv_course = Some ''Web Development'',
     csv_batch = Some ''Batch 2024-01'', csv_startDate = Some ''2024-01-15'',
     csv_notes = Some ''Imported from CSV''\<rparr>"

text \<open>
  A composite creation for a second student, enrolled in the course, with a payment of
  the given amount applied to the new enrollment.
\<close>

definition demo_form :: "json_amount \<Rightarrow> form_data" where
  "demo_form a = Parsed
     \<lparr>fc_student = Some \<lparr>sp_name = Some ''Ben Tan'', sp_email = Some ''ben@example.com'',
                          sp_phone = Some ''0198765432'', sp_nricPassportId = Some ''B7654321'',
                          sp_documents = []\<rparr>,
      fc_enrollment = Some \<lparr>ep_courseId = Some ''c1'', ep_batch = None, ep_startDate = None,
                             ep_endDate = None, ep_status = None\<rparr>,
      fc_payment = Some \<lparr>pp_amount = Some a, pp_method = Some ''CASH'',
                          pp_date = Some ''2024-02-01'', pp_applyTo = Some ''enrollment'',
                          pp_enrollmentId = None, pp_notes = None\<rparr>\<rparr>"


lemmas demo_defs =
  demo_student_def demo_course_def demo_enrollment_def demo_payment_def demo_db_def demo_req_def

section \<open>Properties\<close>

subsection \<open>Rounding to a double\<close>

lemma pow2_powi: "pow2 k = 2 powi k"
  by (simp add: pow2_def power_int_def inverse_eq_divide power_one_over)

text \<open>The binary exponent is the one of its description.\<close>

lemma expo_bounds:
  assumes "0 < a"
  shows "pow2 (expo a) \<le> a \<and> a < pow2 (expo a + 1)"
proof -
  obtain p q where pq: "quotient_of a = (p, q)" by (cases "quotient_of a")
  then have q: "0 < q" by (rule quotient_of_denom_pos)
  from pq have a: "a = of_int p / of_int q" by (rule quotient_of_div)
  with assms q have p: "0 < p" by (simp add: zero_less_divide_iff)
  let ?bp = "bitlen p" and ?bq = "bitlen q"
  from bitlen_bounds [OF p] have bp: "2 ^ nat (?bp - 1) \<le> p" "p < 2 ^ nat ?bp" by auto
  from bitlen_bounds [OF q] have bq: "2 ^ nat (?bq - 1) \<le> q" "q < 2 ^ nat ?bq" by auto
  have bp1: "1 \<le> ?bp" using p by (auto simp: bitlen_alt_def)
  have bq1: "1 \<le> ?bq" using q by (auto simp: bitlen_alt_def)
  have P1: "(2::rat) powi (?bp - 1) \<le> of_int p"
  proof -
    have "(of_int (2 ^ nat (?bp - 1)) :: rat) \<le> of_int p" using bp(1) by (simp only: of_int_le_iff)
    then show ?thesis using bp1 by (simp add: power_int_def)
  qed
  have P2: "(of_int p :: rat) < 2 powi ?bp"
  proof -
    have "(of_int p :: rat) < of_int (2 ^ nat ?bp)" using bp(2) by (simp only: of_int_less_iff)
    then show ?thesis using bp1 by (simp add: power_int_def)
  qed
  have Q1: "(2::rat) powi (?bq - 1) \<le> of_int q"
  proof -
    have "(of_int (2 ^ nat (?bq - 1)) :: rat) \<le> of_int q" using bq(1) by (simp only: of_int_le_iff)
    then show ?thesis using bq1 by (simp add: power_int_def)
  qed
  have Q2: "(of_int q :: rat) < 2 powi ?bq"
  proof -
    have "(of_int q :: rat) < of_int (2 ^ nat ?bq)" using bq(2) by (simp only: of_int_less_iff)
    then show ?thesis using bq1 by (simp add: power_int_def)
  qed
  have pos: "(0::rat) < 2 powi n" for n by simp
  have upper: "a < 2 powi (?bp - ?bq + 1)"
  proof -
    have "of_int p / of_int q < (2::rat) powi ?bp / 2 powi (?bq - 1)"
      using p P2 Q1 pos by (intro frac_less) auto
    also have "\<dots> = 2 powi (?bp - (?bq - 1))"
      by (rule power_int_diff [symmetric]) simp
    also have "?bp - (?bq - 1) = ?bp - ?bq + 1" by simp
    finally show ?thesis by (simp add: a)
  qed
  have lower: "2 powi (?bp - ?bq - 1) < a"
  proof -
    have "(2::rat) powi (?bp - 1) / 2 powi ?bq < of_int p / of_int q"
      using q P1 Q2 pos by (intro frac_less2) auto
    moreover have "(2::rat) powi (?bp - 1) / 2 powi ?bq = 2 powi (?bp - 1 - ?bq)"
      by (rule power_int_diff [symmetric]) simp
    moreover have "?bp - 1 - ?bq = ?bp - ?bq - 1" by simp
    ultimately show ?thesis by (simp add: a)
  qed
  show ?thesis
  proof (cases "pow2 (?bp - ?bq) \<le> a")
    case True
    then have "expo a = ?bp - ?bq" by (simp add: expo_def pq Let_def)
    with True upper show ?thesis by (simp add: pow2_powi)
  next
    case False
    then have "expo a = ?bp - ?bq - 1" by (simp add: expo_def pq Let_def)
    with False lower show ?thesis by (simp add: pow2_powi)
  qed
qed


text \<open>The rounding is to a nearest integer, and a tie goes to an even one.\<close>

lemma round_half_even_nearest: "\<bar>of_int (round_half_even x) - x\<bar> \<le> 1 / 2"
proof -
  define f where "f = \<lfloor>x\<rfloor>"
  have b: "of_int f \<le> x" "x < of_int f + 1" unfolding f_def by linarith+
  have "round_half_even x
          = (if x - of_int f < 1 / 2 then f
             else if 1 / 2 < x - of_int f then f + 1
             else if even f then f else f + 1)"
    by (simp add: round_half_even_def Let_def f_def)
  with b show ?thesis
    by (auto simp: abs_if)
qed

lemma round_half_even_tie:
  "x - of_int \<lfloor>x\<rfloor> = 1 / 2 \<Longrightarrow> even (round_half_even x)"
  by (simp add: round_half_even_def Let_def)

text \<open>
  A finite result of \<open>round64\<close> is within half a unit in the last place of its argument.
\<close>

lemma pow2_pos: "0 < pow2 k"
  by (simp add: pow2_powi)

lemma round64_nearest:
  assumes "round64 x = Fin r"
  shows "\<bar>r - x\<bar> \<le> pow2 (max (expo \<bar>x\<bar>) (- 1022) - 52) / 2"
proof -
  define u where "u = pow2 (max (expo \<bar>x\<bar>) (- 1022) - 52)"
  define n where "n = round_half_even (\<bar>x\<bar> / u)"
  have u: "0 < u" unfolding u_def by (rule pow2_pos)
  show "\<bar>r - x\<bar> \<le> u / 2"
  proof (cases "x = 0")
    case True
    with assms have "r = 0" by (simp add: round64_def)
    with True u show ?thesis by simp
  next
    case False
    have "round64 x = (if 1024 \<le> max (expo \<bar>x\<bar>) (- 1022)
                          \<or> (max (expo \<bar>x\<bar>) (- 1022) = 1023 \<and> n = 2 ^ 53)
                       then (if 0 < x then PosInf else NegInf)
                       else Fin (if 0 < x then of_int n * u else - (of_int n * u)))"
      using False unfolding round64_def Let_def n_def u_def by (simp only: if_False)
    with assms have r: "r = (if 0 < x then of_int n * u else - (of_int n * u))"
      by (simp only: split: if_splits) auto
    have "\<bar>of_int n - \<bar>x\<bar> / u\<bar> \<le> 1 / 2" unfolding n_def by (rule round_half_even_nearest)
    then have "\<bar>of_int n - \<bar>x\<bar> / u\<bar> * u \<le> 1 / 2 * u"
      using u by (simp only: mult_le_cancel_right_pos)
    moreover have "\<bar>of_int n - \<bar>x\<bar> / u\<bar> * u = \<bar>of_int n * u - \<bar>x\<bar>\<bar>"
    proof -
      have "\<bar>of_int n - \<bar>x\<bar> / u\<bar> * u = \<bar>(of_int n - \<bar>x\<bar> / u) * u\<bar>"
        using u by (simp add: abs_mult)
      also have "(of_int n - \<bar>x\<bar> / u) * u = of_int n * u - \<bar>x\<bar>"
        using u by (simp add: algebra_simps)
      finally show ?thesis .
    qed
    ultimately have near: "\<bar>of_int n * u - \<bar>x\<bar>\<bar> \<le> u / 2" by simp
    show ?thesis
    proof (cases "0 < x")
      case True
      with near r show ?thesis by simp
    next
      case neg: False
      with False have "x < 0" by simp
      then have "\<bar>r - x\<bar> = \<bar>of_int n * u - \<bar>x\<bar>\<bar>"
        using r by (simp add: abs_minus_commute)
      with near show ?thesis by simp
    qed
  qed
qed

subsection \<open>Balance reconciliation\<close>

lemma reduce_amounts_fold:
  "reduce_amounts ps = foldl js_add (Fin 0) (map parseFloat (map p_amount ps))"
  by (simp add: reduce_amounts_def foldl_map)






text \<open>The detail handler sends this balance.\<close>

lemma get_enrollment_balance:
  assumes "findUnique e_id (enrollments d) i = Some e"
      and "include_course_payments d e = Some j"
  shows "get_enrollment d i = Response 200 (EnrollmentJson (j, double_balance (price j) (amounts j)))"
  using assms
  by (simp add: get_enrollment_def enrollmentWithPaymentStatus_def Let_def double_balance_def
        reduce_amounts_fold)

subsection \<open>Reads and writes\<close>


lemma findUnique_update_row:
  "(\<And>r. key (f r) = key r) \<Longrightarrow>
   findUnique key (update_row key i f rows) i = map_option f (findUnique key rows i)"
  by (induction rows) (auto simp: findUnique_def update_row_def)

subsection \<open>Comparisons and sums of numbers\<close>




subsection \<open>POST /payments and PUT /payments/:id\<close>

lemma post_payment_rejected_unchanged:
  "res_status (fst (post_payment isISO col nid d r)) \<noteq> 201 \<Longrightarrow> snd (post_payment isISO col nid d r) = d"
  by (auto simp: post_payment_def Let_def split: option.splits if_splits jsnum.splits)

lemma post_payment_accepted:
  assumes "res_status (fst (post_payment isISO col nid d r)) = 201"
  shows "\<exists>e c x. findUnique e_id (enrollments d) (rq_enrollmentId r) = Some e
           \<and> e_status e = ACTIVE
           \<and> findUnique c_id (courses d) (e_courseId e) = Some c
           \<and> amount_number r = Fin x
           \<and> \<not> js_gt (js_add (reduce_amounts (payments_of d (rq_enrollmentId r))) (Fin x))
                       (parseFloat (c_price c))
           \<and> students (snd (post_payment isISO col nid d r)) = students d
           \<and> courses (snd (post_payment isISO col nid d r)) = courses d
           \<and> payments (snd (post_payment isISO col nid d r)) = payments d @
                [\<lparr>p_id = nid, p_studentId = rq_studentId r,
                  p_enrollmentId = rq_enrollmentId r, p_amount = col x,
                  p_method = rq_method r, p_date = rq_date r,
                  p_notes = map_option trim (rq_notes r)\<rparr>]
           \<and> enrollments (snd (post_payment isISO col nid d r)) =
               (if js_ge (js_add (reduce_amounts (payments_of d (rq_enrollmentId r))) (Fin x))
                         (parseFloat (c_price c))
                then update_row e_id (rq_enrollmentId r) (\<lambda>e. e\<lparr>e_status := COMPLETED\<rparr>) (enrollments d)
                else enrollments d)"
  using assms
  by (auto simp: post_payment_def Let_def
        split: option.split_asm if_split_asm jsnum.split_asm)








text \<open>
  C10.  A POST /payments against an enrollment that exists with a status other than ACTIVE
  is answered 400 and leaves the database as it was.  Consequently, once an accepted
  payment has completed the enrollment, every further POST /payments for that enrollment
  is answered 400 and persists nothing.
\<close>

theorem post_payment_inactive_rejected:
  "(findUnique e_id (enrollments d) (rq_enrollmentId r) = Some e \<and> e_status e \<noteq> ACTIVE
      \<longrightarrow> res_status (fst (post_payment isISO col nid d r)) = 400
          \<and> snd (post_payment isISO col nid d r) = d)
   \<and> (res_status (fst (post_payment isISO col nid d r)) = 201
       \<and> findUnique e_id (enrollments d) (rq_enrollmentId r) = Some e
       \<and> findUnique c_id (courses d) (e_courseId e) = Some c
       \<and> js_ge (js_add (reduce_amounts (payments_of d (rq_enrollmentId r))) (amount_number r))
                (parseFloat (c_price c))
       \<and> rq_enrollmentId r' = rq_enrollmentId r
      \<longrightarrow> res_status (fst (post_payment isISO' col' nid' (snd (post_payment isISO col nid d r)) r')) = 400
          \<and> snd (post_payment isISO' col' nid' (snd (post_payment isISO col nid d r)) r')
              = snd (post_payment isISO col nid d r))"
proof -
  have inactive: "res_status (fst (post_payment v k i x q)) = 400 \<and> snd (post_payment v k i x q) = x"
    if "findUnique e_id (enrollments x) (rq_enrollmentId q) = Some y" "e_status y \<noteq> ACTIVE"
    for v k i x q y
    using that by (auto simp: post_payment_def Let_def split: option.splits)
  have later: "res_status (fst (post_payment isISO' col' nid' (snd (post_payment isISO col nid d r)) r')) = 400
          \<and> snd (post_payment isISO' col' nid' (snd (post_payment isISO col nid d r)) r')
              = snd (post_payment isISO col nid d r)"
    if acc: "res_status (fst (post_payment isISO col nid d r)) = 201"
      and e: "findUnique e_id (enrollments d) (rq_enrollmentId r) = Some e"
      and c: "findUnique c_id (courses d) (e_courseId e) = Some c"
      and ge: "js_ge (js_add (reduce_amounts (payments_of d (rq_enrollmentId r))) (amount_number r))
                     (parseFloat (c_price c))"
      and same: "rq_enrollmentId r' = rq_enrollmentId r"
  proof -
    from post_payment_accepted [OF acc] e c ge
    have es: "enrollments (snd (post_payment isISO col nid d r)) = update_row e_id (rq_enrollmentId r)
               (\<lambda>e. e\<lparr>e_status := COMPLETED\<rparr>) (enrollments d)"
      by auto
    have "findUnique e_id (enrollments (snd (post_payment isISO col nid d r))) (rq_enrollmentId r')
            = Some (e\<lparr>e_status := COMPLETED\<rparr>)"
      by (simp add: es same findUnique_update_row e)
    from inactive [OF this] show ?thesis by simp
  qed
  from inactive later show ?thesis by blast
qed

theorem post_payment_inactive_rejected_witness:
  "findUnique e_id (enrollments (demo_db\<lparr>enrollments := [demo_enrollment\<lparr>e_status := SUSPENDED\<rparr>]\<rparr>))
      (rq_enrollmentId (demo_req 100)) = Some (demo_enrollment\<lparr>e_status := SUSPENDED\<rparr>)
   \<and> res_status (fst (post_payment (\<lambda>_. True) (\<lambda>x. x) ''p2''
        (demo_db\<lparr>enrollments := [demo_enrollment\<lparr>e_status := SUSPENDED\<rparr>]\<rparr>) (demo_req 100))) = 400
   \<and> snd (post_payment (\<lambda>_. True) (\<lambda>x. x) ''p2''
        (demo_db\<lparr>enrollments := [demo_enrollment\<lparr>e_status := SUSPENDED\<rparr>]\<rparr>) (demo_req 100))
       = demo_db\<lparr>enrollments := [demo_enrollment\<lparr>e_status := SUSPENDED\<rparr>]\<rparr>
   \<and> res_status (fst (post_payment (\<lambda>_. True) (\<lambda>x. x) ''p2'' demo_db (demo_req 600))) = 201
   \<and> res_status (fst (post_payment (\<lambda>_. True) (\<lambda>x. x) ''p3''
        (snd (post_payment (\<lambda>_. True) (\<lambda>x. x) ''p2'' demo_db (demo_req 600))) (demo_req 1))) = 400
   \<and> snd (post_payment (\<lambda>_. True) (\<lambda>x. x) ''p3''
        (snd (post_payment (\<lambda>_. True) (\<lambda>x. x) ''p2'' demo_db (demo_req 600))) (demo_req 1))
       = snd (post_payment (\<lambda>_. True) (\<lambda>x. x) ''p2'' demo_db (demo_req 600))"
proof -
  have first: "findUnique e_id (enrollments (demo_db\<lparr>enrollments := [demo_enrollment\<lparr>e_status := SUSPENDED\<rparr>]\<rparr>))
      (rq_enrollmentId (demo_req 100)) = Some (demo_enrollment\<lparr>e_status := SUSPENDED\<rparr>)"
    by (simp add: demo_defs findUnique_def)
  have acc: "res_status (fst (post_payment (\<lambda>_. True) (\<lambda>x. x) ''p2'' demo_db (demo_req 600))) = 201"
    by code_simp
  have hyps: "findUnique e_id (enrollments demo_db) (rq_enrollmentId (demo_req 600)) = Some demo_enrollment
      \<and> findUnique c_id (courses demo_db) (e_courseId demo_enrollment) = Some demo_course
      \<and> js_ge (js_add (reduce_amounts (payments_of demo_db (rq_enrollmentId (demo_req 600))))
                  (amount_number (demo_req 600)))
               (parseFloat (c_price demo_course))
      \<and> rq_enrollmentId (demo_req 1) = rq_enrollmentId (demo_req 600)"
    by code_simp
  from first acc hyps
    post_payment_inactive_rejected
      [of "demo_db\<lparr>enrollments := [demo_enrollment\<lparr>e_status := SUSPENDED\<rparr>]\<rparr>" "demo_req 100"
          "demo_enrollment\<lparr>e_status := SUSPENDED\<rparr>" "\<lambda>_. True" "\<lambda>x. x" "''p2''"]
    post_payment_inactive_rejected
      [of demo_db "demo_req 600" demo_enrollment "\<lambda>_. True" "\<lambda>x. x" "''p2''" demo_course
          "demo_req 1" "\<lambda>_. True" "\<lambda>x. x" "''p3''"]
  show ?thesis by simp
qed

text \<open>
  C5.  PUT /payments/:id writes the new amount without the price check that POST /payments
  makes: from a database in which every enrollment is within its course price, raising the
  400.00 payment to 2000.00 is answered 200 and leaves 2000.00 paid against a price of
  1000.00.
\<close>

theorem put_payment_overshoots_price:
  "payments_within_price demo_db
   \<and> res_status (fst (put_payment (\<lambda>_. True) (\<lambda>x. x) demo_db ''p1'' (demo_req 2000))) = 200
   \<and> reduce_amounts (payments_of (snd (put_payment (\<lambda>_. True) (\<lambda>x. x) demo_db ''p1'' (demo_req 2000))) ''e1'')
       = Fin 2000
   \<and> c_price demo_course = 1000
   \<and> \<not> payments_within_price (snd (put_payment (\<lambda>_. True) (\<lambda>x. x) demo_db ''p1'' (demo_req 2000)))"
  by code_simp

subsection \<open>Interleaved requests\<close>

text \<open>Run to completion without interruption, the steps are the handler.\<close>

lemma run_post_5:
  "run_post v k nid r 5 (AtFindStudent, d)
     = (Responded (fst (post_payment v k nid d r)), snd (post_payment v k nid d r))"
  by (simp add: eval_nat_numeral post_payment_def Let_def split: option.splits jsnum.splits)

text \<open>
  C9.  Two POST /payments for the same enrollment (400.00 of 1000.00 paid; payments of
  500.00 and 600.00) can take turns so that both read the existing payments before either
  writes: both pass the price check, both are answered 201, both rows persist, and 1500.00
  is then paid against a price of 1000.00.  Handled one after the other, the second
  request is answered 400.
\<close>

theorem concurrent_posts_overshoot_price:
  "\<exists>sched.
     payments_within_price demo_db
     \<and> interleave (\<lambda>_. True) (\<lambda>x. x) (''p2'', demo_req 500) (''p3'', demo_req 600) sched
          (AtFindStudent, AtFindStudent, demo_db)
       = (Responded (Response 201 (PaymentJson
            (demo_payment\<lparr>p_id := ''p2'', p_amount := 500, p_date := ''2024-02-01''\<rparr>))),
          Responded (Response 201 (PaymentJson
            (demo_payment\<lparr>p_id := ''p3'', p_amount := 600, p_date := ''2024-02-01''\<rparr>))),
          demo_db\<lparr>enrollments := [demo_enrollment\<lparr>e_status := COMPLETED\<rparr>],
                  payments :=
                    [demo_payment,
                     demo_payment\<lparr>p_id := ''p2'', p_amount := 500, p_date := ''2024-02-01''\<rparr>,
                     demo_payment\<lparr>p_id := ''p3'', p_amount := 600, p_date := ''2024-02-01''\<rparr>]\<rparr>)
     \<and> reduce_amounts (payments_of
          (snd (snd (interleave (\<lambda>_. True) (\<lambda>x. x) (''p2'', demo_req 500) (''p3'', demo_req 600) sched
                  (AtFindStudent, AtFindStudent, demo_db)))) ''e1'') = Fin 1500
     \<and> c_price demo_course = 1000
     \<and> res_status (fst (post_payment (\<lambda>_. True) (\<lambda>x. x) ''p3''
          (snd (post_payment (\<lambda>_. True) (\<lambda>x. x) ''p2'' demo_db (demo_req 500))) (demo_req 600))) = 400"
  by (rule exI [of _ "[First, First, First, Second, Second, Second, First, Second, Second]"])
     code_simp

subsection \<open>Deleting courses and enrollments\<close>

text \<open>
  C8.  DELETE /courses/:id is answered 400 and changes nothing while an enrollment
  references the course, and DELETE /enrollments/:id likewise while a payment references
  the enrollment; whenever either handler does remove a row, no row of the referencing
  table points to the removed id.
\<close>

theorem deletes_blocked_while_referenced:
  "(e \<in> set (enrollments d) \<and> e_courseId e = i
      \<longrightarrow> res_status (fst (delete_course d i)) = 400 \<and> snd (delete_course d i) = d)
   \<and> (p \<in> set (payments d) \<and> p_enrollmentId p = j
      \<longrightarrow> res_status (fst (delete_enrollment d j)) = 400 \<and> snd (delete_enrollment d j) = d)
   \<and> (courses (snd (delete_course d i)) \<noteq> courses d
      \<longrightarrow> filter (\<lambda>e. e_courseId e = i) (enrollments (snd (delete_course d i))) = [])
   \<and> (enrollments (snd (delete_enrollment d j)) \<noteq> enrollments d
      \<longrightarrow> payments_of (snd (delete_enrollment d j)) j = [])"
proof -
  have c: "res_status (fst (delete_course d i)) = 400 \<and> snd (delete_course d i) = d"
    if "e \<in> set (enrollments d)" "e_courseId e = i"
  proof -
    from that have "filter (\<lambda>e. e_courseId e = i) (enrollments d) \<noteq> []"
      by (auto simp: filter_empty_conv)
    then show ?thesis by (simp add: delete_course_def Let_def)
  qed
  have e: "res_status (fst (delete_enrollment d j)) = 400 \<and> snd (delete_enrollment d j) = d"
    if "p \<in> set (payments d)" "p_enrollmentId p = j"
  proof -
    from that have "payments_of d j \<noteq> []"
      by (auto simp: payments_of_def filter_empty_conv)
    then show ?thesis by (simp add: delete_enrollment_def Let_def)
  qed
  have c': "filter (\<lambda>e. e_courseId e = i) (enrollments (snd (delete_course d i))) = []"
    if "courses (snd (delete_course d i)) \<noteq> courses d"
    using that by (auto simp: delete_course_def Let_def split: if_splits option.splits)
  have e': "payments_of (snd (delete_enrollment d j)) j = []"
    if "enrollments (snd (delete_enrollment d j)) \<noteq> enrollments d"
    using that
    by (auto simp: delete_enrollment_def Let_def payments_of_def split: if_splits option.splits)
  from c e c' e' show ?thesis by blast
qed

theorem deletes_blocked_while_referenced_witness:
  "demo_enrollment \<in> set (enrollments demo_db) \<and> e_courseId demo_enrollment = ''c1''
   \<and> res_status (fst (delete_course demo_db ''c1'')) = 400
   \<and> snd (delete_course demo_db ''c1'') = demo_db
   \<and> demo_payment \<in> set (payments demo_db) \<and> p_enrollmentId demo_payment = ''e1''
   \<and> res_status (fst (delete_enrollment demo_db ''e1'')) = 400
   \<and> snd (delete_enrollment demo_db ''e1'') = demo_db
   \<and> courses (snd (delete_course (demo_db\<lparr>enrollments := [], payments := []\<rparr>) ''c1''))
       \<noteq> courses (demo_db\<lparr>enrollments := [], payments := []\<rparr>)
   \<and> filter (\<lambda>e. e_courseId e = ''c1'')
        (enrollments (snd (delete_course (demo_db\<lparr>enrollments := [], payments := []\<rparr>) ''c1''))) = []
   \<and> enrollments (snd (delete_enrollment (demo_db\<lparr>payments := []\<rparr>) ''e1''))
       \<noteq> enrollments (demo_db\<lparr>payments := []\<rparr>)
   \<and> payments_of (snd (delete_enrollment (demo_db\<lparr>payments := []\<rparr>) ''e1'')) ''e1'' = []"
  using deletes_blocked_while_referenced [of demo_enrollment demo_db "''c1''" demo_payment "''e1''"]
    deletes_blocked_while_referenced
      [of demo_enrollment "demo_db\<lparr>enrollments := [], payments := []\<rparr>" "''c1''" demo_payment "''e1''"]
    deletes_blocked_while_referenced
      [of demo_enrollment "demo_db\<lparr>payments := []\<rparr>" "''c1''" demo_payment "''e1''"]
  by (simp add: demo_defs delete_course_def delete_enrollment_def Let_def payments_of_def
        findUnique_def delete_row_def)

subsection \<open>CSV preview\<close>

lemma on_data_valid:
  "valid_csv_row r \<Longrightarrow> \<exists>c. on_data (rs, es) r = (rs @ [c], es)"
  by (simp add: on_data_def valid_csv_row_def Let_def)

lemma on_data_invalid:
  "\<not> valid_csv_row r \<Longrightarrow> \<exists>e. on_data (rs, es) r = (rs, es @ [e])"
  by (auto simp: on_data_def valid_csv_row_def Let_def not_le)

lemma foldl_on_data_counts:
  "length (fst (foldl on_data (rs, es) rows)) = length rs + length (filter valid_csv_row rows)
   \<and> length (snd (foldl on_data (rs, es) rows))
       = length es + length (filter (\<lambda>r. \<not> valid_csv_row r) rows)"
proof (induction rows arbitrary: rs es)
  case Nil
  show ?case by simp
next
  case (Cons r rows)
  show ?case
  proof (cases "valid_csv_row r")
    case True
    from on_data_valid [OF True] obtain c where "on_data (rs, es) r = (rs @ [c], es)" by blast
    with True Cons.IH [of "rs @ [c]" es] show ?thesis by simp
  next
    case False
    from on_data_invalid [OF False] obtain e where "on_data (rs, es) r = (rs, es @ [e])" by blast
    with False Cons.IH [of rs "es @ [e]"] show ?thesis by simp
  qed
qed

lemma csv_preview_counts:
  "\<exists>j. csv_preview d (Some rows) = (Response 200 (CsvPreviewJson j), d)
       \<and> cp_validRows j = length (filter valid_csv_row rows)
       \<and> cp_errorRows j = length (filter (\<lambda>r. \<not> valid_csv_row r) rows)
       \<and> cp_totalRows j = length rows"
proof -
  obtain results errors where p: "parseCSV rows = (results, errors)"
    by (cases "parseCSV rows")
  from foldl_on_data_counts [of "[]" "[]" rows] p
  have "length results = length (filter valid_csv_row rows)"
    and "length errors = length (filter (\<lambda>r. \<not> valid_csv_row r) rows)"
    by (simp_all add: parseCSV_def)
  moreover have "length (filter valid_csv_row rows) + length (filter (\<lambda>r. \<not> valid_csv_row r) rows)
      = length rows"
    by (rule sum_length_filter_compl)
  ultimately show ?thesis
    by (simp add: csv_preview_def p)
qed

text \<open>
  C7.  For a file of exactly two rows, one valid and one whose email is missing, in either
  order, POST /upload/csv-preview answers 200 with validRows = 1 and errorRows = 1 (of 2
  rows in total) and leaves the database as it was.
\<close>

theorem csv_preview_one_valid_one_missing_email:
  assumes "valid_csv_row good" and "\<not> truthy (csv_email bad)"
    and "rows = [good, bad] \<or> rows = [bad, good]"
  shows "\<exists>j. csv_preview d (Some rows) = (Response 200 (CsvPreviewJson j), d)
           \<and> cp_validRows j = 1 \<and> cp_errorRows j = 1 \<and> cp_totalRows j = 2"
proof -
  from assms(2) have "\<not> valid_csv_row bad" by (simp add: valid_csv_row_def)
  with assms(1,3) have "length (filter valid_csv_row rows) = 1"
    and "length (filter (\<lambda>r. \<not> valid_csv_row r) rows) = 1" and "length rows = 2"
    by auto
  with csv_preview_counts [of d rows] show ?thesis by simp
qed

theorem csv_preview_one_valid_one_missing_email_witness:
  "valid_csv_row demo_csv_row \<and> \<not> truthy (csv_email (demo_csv_row\<lparr>csv_email := Some ''''\<rparr>))
   \<and> (\<exists>j. csv_preview demo_db (Some [demo_csv_row, demo_csv_row\<lparr>csv_email := Some ''''\<rparr>])
             = (Response 200 (CsvPreviewJson j), demo_db)
           \<and> cp_validRows j = 1 \<and> cp_errorRows j = 1 \<and> cp_totalRows j = 2)"
proof -
  have v: "valid_csv_row demo_csv_row"
    by (simp add: valid_csv_row_def demo_csv_row_def truthy_def str_of_def trim_def is_space_def
          toLowerCase_def to_lower_def)
  have b: "\<not> truthy (csv_email (demo_csv_row\<lparr>csv_email := Some ''''\<rparr>))"
    by (simp add: truthy_def)
  from v b csv_preview_one_valid_one_missing_email
      [OF v b, of "[demo_csv_row, demo_csv_row\<lparr>csv_email := Some ''''\<rparr>]" demo_db]
  show ?thesis by simp
qed

subsection \<open>List endpoints\<close>

lemma pages_of_pos:
  assumes "0 < l"
  shows "pages_of n (Some l) = Some \<lceil>(of_nat n :: rat) / of_int l\<rceil>
         \<and> int n \<le> \<lceil>(of_nat n :: rat) / of_int l\<rceil> * l
         \<and> (\<lceil>(of_nat n :: rat) / of_int l\<rceil> - 1) * l < int n"
proof -
  let ?x = "(of_nat n :: rat) / of_int l"
  let ?k = "\<lceil>?x\<rceil>"
  from assms have l: "(0::rat) < of_int l" by simp
  have c: "of_int ?k - 1 < ?x \<and> ?x \<le> of_int ?k" by (rule ceiling_correct)
  from c have "?x \<le> of_int ?k" by blast
  then have "of_nat n \<le> (of_int ?k :: rat) * of_int l"
    using l by (rule_tac pos_divide_le_eq [THEN iffD1])
  then have "(of_int (int n) :: rat) \<le> of_int (?k * l)" by simp
  then have up: "int n \<le> ?k * l" by (simp only: of_int_le_iff)
  from c have "of_int ?k - 1 < ?x" by blast
  then have "(of_int ?k - 1) * of_int l < (of_nat n :: rat)"
    using l by (rule_tac pos_less_divide_eq [THEN iffD1])
  then have "(of_int ((?k - 1) * l) :: rat) < of_int (int n)" by simp
  then have low: "(?k - 1) * l < int n" by (simp only: of_int_less_iff)
  from assms have "pages_of n (Some l) = Some ?k" by (simp add: pages_of_def)
  with up low show ?thesis by blast
qed

text \<open>
  C6 as stated has every list body carry its rows under a property named
  \<^verbatim>\<open>data\<close>.  It does not: GET /students, asked for the first page of a table of
  one student, sends the rows as \<^verbatim>\<open>students\<close>.
\<close>

theorem list_body_rows_not_under_data:
  "get_students demo_window [demo_student] \<lparr>q_page = None, q_limit = None\<rparr>
     = Response 200 (StudentsList [demo_student]
         \<lparr>pg_page = Some 1, pg_limit = Some 20, pg_total = 1, pg_pages = Some 1\<rparr>)
   \<and> rows_key (res_body (get_students demo_window [demo_student] \<lparr>q_page = None, q_limit = None\<rparr>))
       = Some ''students''
   \<and> rows_key (res_body (get_students demo_window [demo_student] \<lparr>q_page = None, q_limit = None\<rparr>))
       \<noteq> Some ''data''"
proof -
  have "\<lceil>(1 :: rat) / 20\<rceil> = 1" by (simp add: ceiling_eq_iff)
  then have "pages_of (Suc 0) (Some 20) = Some 1" by (simp add: pages_of_def)
  then show ?thesis
    by (simp add: get_students_def query_page_def query_limit_def skip_of_def demo_window_def
          Let_def)
qed

text \<open>
  C6, amended.  Each of GET /students, /courses, /enrollments and /payments, when the ORM
  returns the requested window of rows, answers 200 with those rows under the property
  named after the resource (students, courses, enrollments, payments) and the pagination
  object of the parsed page and limit, the number of matching rows as total, and
  pages = ceil(total / limit); for a positive limit that is the least number of pages of
  that size holding all the rows.
\<close>

theorem list_endpoints_pagination:
  "(ws srows (skip_of (query_page q) (query_limit q)) (query_limit q) = Some sdata
      \<longrightarrow> get_students ws srows q = Response 200 (StudentsList sdata
            \<lparr>pg_page = query_page q, pg_limit = query_limit q, pg_total = length srows,
             pg_pages = pages_of (length srows) (query_limit q)\<rparr>)
          \<and> rows_key (res_body (get_students ws srows q)) = Some ''students'')
   \<and> (wc crows (skip_of (query_page q) (query_limit q)) (query_limit q) = Some cdata
      \<longrightarrow> get_courses wc crows q = Response 200 (CoursesList cdata
            \<lparr>pg_page = query_page q, pg_limit = query_limit q, pg_total = length crows,
             pg_pages = pages_of (length crows) (query_limit q)\<rparr>)
          \<and> rows_key (res_body (get_courses wc crows q)) = Some ''courses'')
   \<and> (we erows (skip_of (query_page q) (query_limit q)) (query_limit q) = Some edata
      \<longrightarrow> get_enrollments we erows q = Response 200 (EnrollmentsList
            (enrollmentsWithPaymentStatus edata)
            \<lparr>pg_page = query_page q, pg_limit = query_limit q, pg_total = length erows,
             pg_pages = pages_of (length erows) (query_limit q)\<rparr>)
          \<and> rows_key (res_body (get_enrollments we erows q)) = Some ''enrollments'')
   \<and> (wp prows (skip_of (query_page q) (query_limit q)) (query_limit q) = Some pdata
      \<longrightarrow> get_payments wp prows q = Response 200 (PaymentsList pdata
            \<lparr>pg_page = query_page q, pg_limit = query_limit q, pg_total = length prows,
             pg_pages = pages_of (length prows) (query_limit q)\<rparr>)
          \<and> rows_key (res_body (get_payments wp prows q)) = Some ''payments'')
   \<and> (query_limit q = Some l \<and> 0 < l
      \<longrightarrow> pages_of n (query_limit q) = Some \<lceil>(of_nat n :: rat) / of_int l\<rceil>
          \<and> int n \<le> \<lceil>(of_nat n :: rat) / of_int l\<rceil> * l
          \<and> (\<lceil>(of_nat n :: rat) / of_int l\<rceil> - 1) * l < int n)"
proof -
  have s: "ws srows (skip_of (query_page q) (query_limit q)) (query_limit q) = Some sdata
      \<longrightarrow> get_students ws srows q = Response 200 (StudentsList sdata
            \<lparr>pg_page = query_page q, pg_limit = query_limit q, pg_total = length srows,
             pg_pages = pages_of (length srows) (query_limit q)\<rparr>)
          \<and> rows_key (res_body (get_students ws srows q)) = Some ''students''"
    by (simp add: get_students_def Let_def)
  have c: "wc crows (skip_of (query_page q) (query_limit q)) (query_limit q) = Some cdata
      \<longrightarrow> get_courses wc crows q = Response 200 (CoursesList cdata
            \<lparr>pg_page = query_page q, pg_limit = query_limit q, pg_total = length crows,
             pg_pages = pages_of (length crows) (query_limit q)\<rparr>)
          \<and> rows_key (res_body (get_courses wc crows q)) = Some ''courses''"
    by (simp add: get_courses_def Let_def)
  have e: "we erows (skip_of (query_page q) (query_limit q)) (query_limit q) = Some edata
      \<longrightarrow> get_enrollments we erows q = Response 200 (EnrollmentsList
            (enrollmentsWithPaymentStatus edata)
            \<lparr>pg_page = query_page q, pg_limit = query_limit q, pg_total = length erows,
             pg_pages = pages_of (length erows) (query_limit q)\<rparr>)
          \<and> rows_key (res_body (get_enrollments we erows q)) = Some ''enrollments''"
    by (simp add: get_enrollments_def Let_def)
  have p: "wp prows (skip_of (query_page q) (query_limit q)) (query_limit q) = Some pdata
      \<longrightarrow> get_payments wp prows q = Response 200 (PaymentsList pdata
            \<lparr>pg_page = query_page q, pg_limit = query_limit q, pg_total = length prows,
             pg_pages = pages_of (length prows) (query_limit q)\<rparr>)
          \<and> rows_key (res_body (get_payments wp prows q)) = Some ''payments''"
    by (simp add: get_payments_def Let_def)
  have k: "query_limit q = Some l \<and> 0 < l
      \<longrightarrow> pages_of n (query_limit q) = Some \<lceil>(of_nat n :: rat) / of_int l\<rceil>
          \<and> int n \<le> \<lceil>(of_nat n :: rat) / of_int l\<rceil> * l
          \<and> (\<lceil>(of_nat n :: rat) / of_int l\<rceil> - 1) * l < int n"
    using pages_of_pos [of l n] by auto
  from s c e p k show ?thesis by blast
qed

lemma demo_query_parsed: "query_page demo_query = Some 2 \<and> query_limit demo_query = Some 2"
  by (simp add: demo_query_def query_page_def query_limit_def parseInt_def Let_def is_space_def
        is_digit_def digit_of_def digits_value_def)

theorem list_endpoints_pagination_witness:
  "query_page demo_query = Some 2 \<and> query_limit demo_query = Some 2
   \<and> get_students demo_window [demo_student, demo_student, demo_student\<lparr>st_id := ''s3''\<rparr>] demo_query
       = Response 200 (StudentsList [demo_student\<lparr>st_id := ''s3''\<rparr>]
           \<lparr>pg_page = Some 2, pg_limit = Some 2, pg_total = 3, pg_pages = Some 2\<rparr>)
   \<and> get_courses demo_window [demo_course, demo_course, demo_course\<lparr>c_id := ''c3''\<rparr>] demo_query
       = Response 200 (CoursesList [demo_course\<lparr>c_id := ''c3''\<rparr>]
           \<lparr>pg_page = Some 2, pg_limit = Some 2, pg_total = 3, pg_pages = Some 2\<rparr>)
   \<and> get_enrollments demo_window
        [\<lparr>inc_enrollment = demo_enrollment, inc_course = demo_course, inc_payments = [demo_payment]\<rparr>]
        (demo_query\<lparr>q_page := None\<rparr>)
       = Response 200 (EnrollmentsList
           [(\<lparr>inc_enrollment = demo_enrollment, inc_course = demo_course, inc_payments = [demo_payment]\<rparr>,
             \<lparr>totalPaid = Fin 400, outstanding = Fin 600, isFullyPaid = False\<rparr>)]
           \<lparr>pg_page = Some 1, pg_limit = Some 2, pg_total = 1, pg_pages = Some 1\<rparr>)
   \<and> get_payments demo_window [demo_payment, demo_payment, demo_payment\<lparr>p_id := ''p3''\<rparr>] demo_query
       = Response 200 (PaymentsList [demo_payment\<lparr>p_id := ''p3''\<rparr>]
           \<lparr>pg_page = Some 2, pg_limit = Some 2, pg_total = 3, pg_pages = Some 2\<rparr>)
   \<and> pages_of 45 (Some 20) = Some 3"
proof -
  note q = demo_query_parsed
  have q1: "query_page (demo_query\<lparr>q_page := None\<rparr>) = Some 1
      \<and> query_limit (demo_query\<lparr>q_page := None\<rparr>) = Some 2"
    using q by (simp add: query_page_def query_limit_def)
  have c3: "\<lceil>(3 :: rat) / 2\<rceil> = 2" "\<lceil>(1 :: rat) / 2\<rceil> = 1" "\<lceil>(45 :: rat) / 20\<rceil> = 3"
    by (simp_all add: ceiling_eq_iff)
  have bal: "enrollmentsWithPaymentStatus
      [\<lparr>inc_enrollment = demo_enrollment, inc_course = demo_course, inc_payments = [demo_payment]\<rparr>]
     = [(\<lparr>inc_enrollment = demo_enrollment, inc_course = demo_course, inc_payments = [demo_payment]\<rparr>,
         \<lparr>totalPaid = Fin 400, outstanding = Fin 600, isFullyPaid = False\<rparr>)]"
    by code_simp
  have p3: "pages_of (Suc (Suc (Suc 0))) (Some 2) = Some 2" "pages_of (Suc 0) (Some 2) = Some 1"
      "pages_of 45 (Some 20) = Some 3"
    using c3 by (simp_all add: pages_of_def)
  show ?thesis
    using q q1 p3
      list_endpoints_pagination
        [of demo_window "[demo_student, demo_student, demo_student\<lparr>st_id := ''s3''\<rparr>]" demo_query
            "[demo_student\<lparr>st_id := ''s3''\<rparr>]"
            demo_window "[demo_course, demo_course, demo_course\<lparr>c_id := ''c3''\<rparr>]"
            "[demo_course\<lparr>c_id := ''c3''\<rparr>]"
            demo_window
            "[\<lparr>inc_enrollment = demo_enrollment, inc_course = demo_course, inc_payments = [demo_payment]\<rparr>]"
            "[\<lparr>inc_enrollment = demo_enrollment, inc_course = demo_course, inc_payments = [demo_payment]\<rparr>]"
            demo_window "[demo_payment, demo_payment, demo_payment\<lparr>p_id := ''p3''\<rparr>]"
            "[demo_payment\<lparr>p_id := ''p3''\<rparr>]" 2 3]
      list_endpoints_pagination
        [of demo_window "[demo_student]" "demo_query\<lparr>q_page := None\<rparr>" "[demo_student]"
            demo_window "[demo_course]" "[demo_course]"
            demo_window
            "[\<lparr>inc_enrollment = demo_enrollment, inc_course = demo_course, inc_payments = [demo_payment]\<rparr>]"
            "[\<lparr>inc_enrollment = demo_enrollment, inc_course = demo_course, inc_payments = [demo_payment]\<rparr>]"
            demo_window "[demo_payment]" "[demo_payment]" 2 1]
    by (simp add: skip_of_def demo_window_def bal)
qed

subsection \<open>Composite creation\<close>

text \<open>
  The case the specification singles out: the student and the enrollment have been written
  inside the transaction and creating the payment throws.  The response is the one of the
  handler's \<^verbatim>\<open>catch\<close> and the database is the one before the request.
\<close>

lemma full_create_tx_payment_failure:
  assumes nodup: "find (\<lambda>s. st_nricPassportId s = sp_nricPassportId sp) (students d) = None"
    and row: "row = \<lparr>st_id = sid, st_name = str_of (sp_name sp),
                      st_email = str_of (sp_email sp), st_phone = str_of (sp_phone sp),
                      st_nricPassportId = sp_nricPassportId sp,
                      st_documents = sp_documents sp @ paths\<rparr>"
    and st: "student_create row d = Inr tx1"
    and en: "tx_enrollment validDate now eid row (fc_enrollment parsed) tx1 = Inr (enr, tx2)"
    and pay: "tx_payment validDate pid row enr (fc_payment parsed) tx2 = Inl err"
  shows "full_create_tx validDate now (sid, eid, pid) paths parsed sp d = Inl err"
  using nodup st en pay unfolding row
  by (simp add: full_create_tx_def Let_def)

lemma full_create_tx_failure:
  assumes "fc_student parsed = Some sp"
    and "truthy (sp_name sp)" "truthy (sp_email sp)" "truthy (sp_phone sp)"
      "truthy (sp_nricPassportId sp)"
    and "full_create_tx validDate now ids (docPaths files) parsed sp d = Inl err"
  shows "full_create validDate now ids files d (Parsed parsed) = (full_create_catch err, d)"
  using assms by (simp add: full_create_def transaction_def)

lemma full_create_catch_400: "res_status (full_create_catch err) = 400"
  by (simp add: full_create_catch_def split: thrown.splits)

lemma transaction_rollback: "fst (transaction f d) = Inl err \<Longrightarrow> snd (transaction f d) = d"
  by (auto simp: transaction_def split: sum.splits prod.splits)

text \<open>
  C4.  POST /students/full-create is all-or-nothing: whenever the request is not answered
  201 (the form data does not parse, a required student field is missing, the national ID
  is taken, or creating the student, the enrollment or the payment throws) it is answered
  400 and the database is left as it was, with no student, enrollment or payment row
  added.  In the witness the payment's amount is rejected after the transaction has
  written the student and the enrollment.
\<close>

theorem full_create_all_or_nothing:
  "res_status (fst (full_create validDate now ids files d data)) \<noteq> 201
   \<longrightarrow> res_status (fst (full_create validDate now ids files d data)) = 400
       \<and> snd (full_create validDate now ids files d data) = d"
proof (cases data)
  case Malformed
  then show ?thesis by (simp add: full_create_def full_create_catch_400)
next
  case (Parsed parsed)
  show ?thesis
  proof (cases "fc_student parsed")
    case None
    with Parsed show ?thesis by (simp add: full_create_def)
  next
    case (Some sp)
    show ?thesis
    proof (cases "truthy (sp_name sp) \<and> truthy (sp_email sp) \<and> truthy (sp_phone sp)
                  \<and> truthy (sp_nricPassportId sp)")
      case False
      with Parsed Some show ?thesis by (auto simp: full_create_def)
    next
      case True
      let ?t = "transaction (full_create_tx validDate now ids (docPaths files) parsed sp) d"
      show ?thesis
      proof (cases "fst ?t")
        case (Inl err)
        then have "snd ?t = d" by (rule transaction_rollback)
        with Inl Parsed Some True show ?thesis
          by (cases ?t) (simp add: full_create_def full_create_catch_400)
      next
        case (Inr result)
        with Parsed Some True show ?thesis
          by (cases ?t) (simp add: full_create_def)
      qed
    qed
  qed
qed

theorem full_create_all_or_nothing_witness:
  "tx_payment (\<lambda>_. True) ''p2''
      \<lparr>st_id = ''s2'', st_name = ''Ben Tan'', st_email = ''ben@example.com'',
       st_phone = ''0198765432'', st_nricPassportId = Some ''B7654321'', st_documents = []\<rparr>
      (Some \<lparr>e_id = ''e2'', e_studentId = ''s2'', e_courseId = ''c1'', e_batch = None,
             e_startDate = ''2024-03-01'', e_endDate = None, e_status = ACTIVE\<rparr>)
      (Some \<lparr>pp_amount = Some AmountOtherText, pp_method = Some ''CASH'',
             pp_date = Some ''2024-02-01'', pp_applyTo = Some ''enrollment'',
             pp_enrollmentId = None, pp_notes = None\<rparr>)
      (demo_db\<lparr>students := students demo_db @
                  [\<lparr>st_id = ''s2'', st_name = ''Ben Tan'', st_email = ''ben@example.com'',
                    st_phone = ''0198765432'', st_nricPassportId = Some ''B7654321'',
                    st_documents = []\<rparr>],
               enrollments := enrollments demo_db @
                  [\<lparr>e_id = ''e2'', e_studentId = ''s2'', e_courseId = ''c1'', e_batch = None,
                    e_startDate = ''2024-03-01'', e_endDate = None, e_status = ACTIVE\<rparr>]\<rparr>)
     = Inl DecimalError
   \<and> res_status (fst (full_create (\<lambda>_. True) ''2024-03-01'' (''s2'', ''e2'', ''p2'') [] demo_db
          (demo_form AmountOtherText))) = 400
   \<and> snd (full_create (\<lambda>_. True) ''2024-03-01'' (''s2'', ''e2'', ''p2'') [] demo_db
          (demo_form AmountOtherText)) = demo_db
   \<and> res_status (fst (full_create (\<lambda>_. True) ''2024-03-01'' (''s2'', ''e2'', ''p2'') [] demo_db
          (demo_form (AmountNumber 250)))) = 201
   \<and> map st_id (students (snd (full_create (\<lambda>_. True) ''2024-03-01'' (''s2'', ''e2'', ''p2'') []
          demo_db (demo_form (AmountNumber 250))))) = [''s1'', ''s2'']
   \<and> map e_id (enrollments (snd (full_create (\<lambda>_. True) ''2024-03-01'' (''s2'', ''e2'', ''p2'') []
          demo_db (demo_form (AmountNumber 250))))) = [''e1'', ''e2'']
   \<and> map p_id (payments (snd (full_create (\<lambda>_. True) ''2024-03-01'' (''s2'', ''e2'', ''p2'') []
          demo_db (demo_form (AmountNumber 250))))) = [''p1'', ''p2'']"
proof -
  have step: "tx_payment (\<lambda>_. True) ''p2''
      \<lparr>st_id = ''s2'', st_name = ''Ben Tan'', st_email = ''ben@example.com'',
       st_phone = ''0198765432'', st_nricPassportId = Some ''B7654321'', st_documents = []\<rparr>
      (Some \<lparr>e_id = ''e2'', e_studentId = ''s2'', e_courseId = ''c1'', e_batch = None,
             e_startDate = ''2024-03-01'', e_endDate = None, e_status = ACTIVE\<rparr>)
      (Some \<lparr>pp_amount = Some AmountOtherText, pp_method = Some ''CASH'',
             pp_date = Some ''2024-02-01'', pp_applyTo = Some ''enrollment'',
             pp_enrollmentId = None, pp_notes = None\<rparr>)
      (demo_db\<lparr>students := students demo_db @
                  [\<lparr>st_id = ''s2'', st_name = ''Ben Tan'', st_email = ''ben@example.com'',
                    st_phone = ''0198765432'', st_nricPassportId = Some ''B7654321'',
                    st_documents = []\<rparr>],
               enrollments := enrollments demo_db @
                  [\<lparr>e_id = ''e2'', e_studentId = ''s2'', e_courseId = ''c1'', e_batch = None,
                    e_startDate = ''2024-03-01'', e_endDate = None, e_status = ACTIVE\<rparr>]\<rparr>)
     = Inl DecimalError"
    by (simp add: tx_payment_def amount_truthy_def truthy_def Decimal_def Let_def)
  have bad: "res_status (fst (full_create (\<lambda>_. True) ''2024-03-01'' (''s2'', ''e2'', ''p2'') [] demo_db
          (demo_form AmountOtherText))) = 400"
    by (simp add: full_create_def docPaths_def demo_form_def demo_defs truthy_def transaction_def
          full_create_tx_def student_create_def tx_enrollment_def enrollment_create_def
          tx_payment_def amount_truthy_def Decimal_def truthy_or_none_def str_of_def
          findUnique_def full_create_catch_def Let_def)
  have good: "full_create (\<lambda>_. True) ''2024-03-01'' (''s2'', ''e2'', ''p2'') [] demo_db
          (demo_form (AmountNumber 250))
     = (Response 201 (FullCreateJson
          \<lparr>createdStudent =
             \<lparr>st_id = ''s2'', st_name = ''Ben Tan'', st_email = ''ben@example.com'',
              st_phone = ''0198765432'', st_nricPassportId = Some ''B7654321'',
              st_documents = []\<rparr>,
           createdEnrollment =
             Some \<lparr>e_id = ''e2'', e_studentId = ''s2'', e_courseId = ''c1'', e_batch = None,
                   e_startDate = ''2024-03-01'', e_endDate = None, e_status = ACTIVE\<rparr>,
           createdPayment =
             Some \<lparr>p_id = ''p2'', p_studentId = ''s2'', p_enrollmentId = ''e2'', p_amount = 250,
                   p_method = ''CASH'', p_date = ''2024-02-01'', p_notes = None\<rparr>\<rparr>),
        demo_db\<lparr>students := students demo_db @
                  [\<lparr>st_id = ''s2'', st_name = ''Ben Tan'', st_email = ''ben@example.com'',
                    st_phone = ''0198765432'', st_nricPassportId = Some ''B7654321'',
                    st_documents = []\<rparr>],
                enrollments := enrollments demo_db @
                  [\<lparr>e_id = ''e2'', e_studentId = ''s2'', e_courseId = ''c1'', e_batch = None,
                    e_startDate = ''2024-03-01'', e_endDate = None, e_status = ACTIVE\<rparr>],
                payments := payments demo_db @
                  [\<lparr>p_id = ''p2'', p_studentId = ''s2'', p_enrollmentId = ''e2'',
                    p_amount = 250, p_method = ''CASH'', p_date = ''2024-02-01'',
                    p_notes = None\<rparr>]\<rparr>)"
    by (simp add: full_create_def docPaths_def demo_form_def demo_defs truthy_def transaction_def
          full_create_tx_def student_create_def tx_enrollment_def enrollment_create_def
          tx_payment_def payment_create_def payment_methods_def amount_truthy_def Decimal_def
          truthy_or_none_def str_of_def findUnique_def Let_def)
  from bad full_create_all_or_nothing
      [of "\<lambda>_. True" "''2024-03-01''" "(''s2'', ''e2'', ''p2'')" "[]" demo_db
          "demo_form AmountOtherText"]
  have unchanged: "snd (full_create (\<lambda>_. True) ''2024-03-01'' (''s2'', ''e2'', ''p2'') [] demo_db
          (demo_form AmountOtherText)) = demo_db"
    by simp
  have created:
    "res_status (fst (full_create (\<lambda>_. True) ''2024-03-01'' (''s2'', ''e2'', ''p2'') [] demo_db
          (demo_form (AmountNumber 250)))) = 201"
    "map st_id (students (snd (full_create (\<lambda>_. True) ''2024-03-01'' (''s2'', ''e2'', ''p2'') []
          demo_db (demo_form (AmountNumber 250))))) = [''s1'', ''s2'']"
    "map e_id (enrollments (snd (full_create (\<lambda>_. True) ''2024-03-01'' (''s2'', ''e2'', ''p2'') []
          demo_db (demo_form (AmountNumber 250))))) = [''e1'', ''e2'']"
    "map p_id (payments (snd (full_create (\<lambda>_. True) ''2024-03-01'' (''s2'', ''e2'', ''p2'') []
          demo_db (demo_form (AmountNumber 250))))) = [''p1'', ''p2'']"
    unfolding good by (simp_all add: demo_defs)
  from step bad unchanged created show ?thesis
    by blast
qed

end
